theory Spec2Isabelle
  imports Complex_Main "HOL-Library.AList"
begin

section \<open>Time values\<close>

text \<open>
  A \<^verbatim>\<open>time.Time\<close> is modelled by the number of nanoseconds since the epoch, a
  \<^verbatim>\<open>time.Duration\<close> by a number of nanoseconds. \<^verbatim>\<open>Time.Sub\<close> saturates at the
  ends of the 64-bit range of a duration.
\<close>

type_synonym time = int
type_synonym duration = int

definition Second :: duration where
  "Second = 1000000000"

definition Minute :: duration where
  "Minute = 60 * Second"

definition maxDuration :: duration where
  "maxDuration = 2 ^ 63 - 1"

definition minDuration :: duration where
  "minDuration = - (2 ^ 63)"

definition Sub :: "time \<Rightarrow> time \<Rightarrow> duration" where
  "Sub t u = (let d = t - u in
     if d > maxDuration then maxDuration
     else if d < minDuration then minDuration
     else d)"

section \<open>Data model of \<^verbatim>\<open>server/core\<close>\<close>

text \<open>Values of type \<^verbatim>\<open>interface{}\<close> as decoded from JSON.\<close>

datatype json =
    JNull
  | JBool bool
  | JNumber real
  | JString string
  | JArray "json list"
  | JObject "(string \<times> json) list"

type_synonym bag = "(string \<times> json) list"

record Task =
  ID :: string
  AgentID :: string
  Type :: string
  Command :: string
  Script :: string
  Plugin :: string
  Params :: bag
  Timeout :: int
  Status :: string

text \<open>The request bodies decoded by the handlers of \<^verbatim>\<open>server/api/router.go\<close>.\<close>

record heartbeatData =
  Status :: string
  SystemInfo :: "bag option"
  Tasks :: "string list"

record agentInfo =
  Hostname :: string
  CPUType :: string
  CPULogic :: int
  Memsum :: int
  Memory :: string
  SN :: string
  Product :: string
  Brand :: string
  Netcard :: "string list"
  Basearch :: string
  Disk :: bag
  Raid :: string
  IPMIIP :: string
  ManageIP :: string
  StorageIP :: string
  ParamIP :: string
  OS :: string
  GPUNum :: int
  GPUType :: string
  GPUVendors :: "string list"
  DiskInfo :: "bag list"
  MemoryInfo :: "bag list"
  CPUInfo :: bag
  GPUInfo :: "bag list"
  NetworkInfo :: "bag list"
  AgentVersion :: string

text \<open>
  \<^verbatim>\<open>core.AgentInfo\<close>. It is declared last, so that an unqualified field name below is
  a field of \<^verbatim>\<open>AgentInfo\<close>; the fields of the other records are written qualified.
\<close>

record AgentInfo =
  ID :: string
  Hostname :: string
  CPUType :: string
  CPULogic :: int
  Memsum :: int
  Memory :: string
  SN :: string
  Product :: string
  Brand :: string
  Netcard :: "string list"
  Basearch :: string
  Disk :: bag
  Raid :: string
  IPMIIP :: string
  ManageIP :: string
  StorageIP :: string
  ParamIP :: string
  OS :: string
  Status :: string
  GPUNum :: int
  GPUType :: string
  GPUVendors :: "string list"
  DiskInfo :: "bag list"
  MemoryInfo :: "bag list"
  CPUInfo :: bag
  GPUInfo :: "bag list"
  NetworkInfo :: "bag list"
  UpdateTime :: string
  AgentVersion :: string
  RegisteredAt :: time
  LastSeen :: time

text \<open>
  The registry. The Go map \<^verbatim>\<open>agents\<close> is an association list with one entry per key:
  an assignment \<^verbatim>\<open>agents[id] = agent\<close> is \<^const>\<open>AList.update\<close>, a lookup is
  \<^const>\<open>map_of\<close>, and a \<^verbatim>\<open>range\<close> loop visits the entries in the order of the list
  (Go fixes no order; nothing proved below depends on it). Every key holds a pointer to
  an \<^verbatim>\<open>AgentInfo\<close> of its own, since both callers of \<^verbatim>\<open>Register\<close> allocate the
  struct per request, so a pointer is identified with its key and the struct is stored
  by value. The field \<^verbatim>\<open>logger\<close> keeps the lines written through the logger; the
  field \<^verbatim>\<open>store\<close> is never read by the methods and is left out.
\<close>

record Registry =
  agents :: "(string \<times> AgentInfo) list"
  logger :: "string list"

definition Infof :: "string \<Rightarrow> string" where
  "Infof msg = ''[INFO] '' @ msg"

definition Errorf :: "string \<Rightarrow> string" where
  "Errorf msg = ''[ERROR] '' @ msg"

definition NewRegistry :: Registry where
  "NewRegistry = \<lparr>agents = [], logger = []\<rparr>"

definition Register :: "AgentInfo \<Rightarrow> Registry \<Rightarrow> string \<times> Registry" where
  "Register agent r =
     (let aid = Hostname agent;
          agent' = agent\<lparr>ID := aid\<rparr>
      in (aid, r\<lparr>agents := AList.update aid agent' (agents r),
                  logger := logger r @ [Infof (''Registered agent: '' @ aid)]\<rparr>))"

definition Update :: "string \<Rightarrow> AgentInfo \<Rightarrow> Registry \<Rightarrow> Registry" where
  "Update aid agent r =
     (case map_of (agents r) aid of
        Some existing \<Rightarrow> r\<lparr>agents := AList.update aid (agent\<lparr>ID := aid\<rparr>) (agents r)\<rparr>
      | None \<Rightarrow> r)"

definition Get :: "Registry \<Rightarrow> string \<Rightarrow> AgentInfo option" where
  "Get r aid = map_of (agents r) aid"

text \<open>
  \<^verbatim>\<open>List\<close> returns the pointers held by the map: each is given by its key and the
  struct it points to.
\<close>

definition List_agents :: "Registry \<Rightarrow> (string \<times> AgentInfo) list" where
  "List_agents r = agents r"

text \<open>
  \<^verbatim>\<open>cleanupStaleAgents\<close>. \<open>cleanupRound\<close> is one round of its loop, at the clock
  reading \<open>now\<close> of that round. The loop runs one round for each tick of a ticker
  whose period is \<open>cleanupInterval\<close>: for a ticker created at the time \<open>t0\<close>, the
  tick number \<open>k\<close>, counted from 0, is due at \<open>tickTime t0 cleanupInterval k\<close>, and
  the round that receives it reads the clock \<open>lag k\<close> later (the time the tick and
  the lock take to arrive). \<open>cleanupStaleAgents t0 lag n\<close> is the registry after the
  rounds of the first \<open>n\<close> ticks, when nothing else writes to the registry in between.
\<close>

definition offlineThreshold :: duration where
  "offlineThreshold = 5 * Minute"

definition cleanupInterval :: duration where
  "cleanupInterval = 1 * Minute"

definition stale :: "time \<Rightarrow> AgentInfo \<Rightarrow> bool" where
  "stale now agent \<longleftrightarrow> Sub now (LastSeen agent) > offlineThreshold"

definition cleanupRound :: "time \<Rightarrow> Registry \<Rightarrow> Registry" where
  "cleanupRound now r =
     r\<lparr>agents := map (\<lambda>(aid, agent).
                  (aid, if stale now agent then agent\<lparr>Status := ''offline''\<rparr> else agent))
                (agents r),
       logger := logger r @
                 map (\<lambda>(aid, agent). Infof (''Agent marked as offline: '' @ aid))
                   (filter (\<lambda>(aid, agent). stale now agent) (agents r))\<rparr>"

definition tickTime :: "time \<Rightarrow> duration \<Rightarrow> nat \<Rightarrow> time" where
  "tickTime t0 d k = t0 + (int k + 1) * d"

primrec cleanupStaleAgents :: "time \<Rightarrow> (nat \<Rightarrow> duration) \<Rightarrow> nat \<Rightarrow> Registry \<Rightarrow> Registry" where
  "cleanupStaleAgents t0 lag 0 r = r"
| "cleanupStaleAgents t0 lag (Suc n) r =
     cleanupRound (tickTime t0 cleanupInterval n + lag n) (cleanupStaleAgents t0 lag n r)"

section \<open>The scheduler\<close>

text \<open>
  The scheduler holds a pointer to the registry (the field \<open>registry\<close> is the state
  of that registry), the task map, kept like the agent map, and the lines it has logged.
\<close>

record Scheduler =
  registry :: Registry
  tasks :: "(string \<times> Task) list"
  logger :: "string list"

definition NewScheduler :: "Registry \<Rightarrow> Scheduler" where
  "NewScheduler reg = \<lparr>registry = reg, tasks = [], logger = []\<rparr>"

definition SubmitTask :: "Task \<Rightarrow> Scheduler \<Rightarrow> Scheduler" where
  "SubmitTask task s =
     (let task' = task\<lparr>Task.Status := ''pending''\<rparr>
      in s\<lparr>tasks := AList.update (Task.ID task') task' (tasks s),
            Scheduler.logger := Scheduler.logger s @
              [Infof (''Task submitted: ID='' @ Task.ID task' @ '', AgentID='' @
                      Task.AgentID task' @ '', Type='' @ Task.Type task')]\<rparr>)"

definition GetPendingTasks :: "string \<Rightarrow> Scheduler \<Rightarrow> Task list \<times> Scheduler" where
  "GetPendingTasks agentID s =
     (map snd (filter (\<lambda>(k, task). Task.AgentID task = agentID \<and> Task.Status task = ''pending'')
                 (tasks s)),
      s)"

definition MarkTaskDone :: "string \<Rightarrow> bool \<Rightarrow> string \<Rightarrow> string \<Rightarrow> Scheduler \<Rightarrow> Scheduler" where
  "MarkTaskDone taskID success output errMsg s =
     (case map_of (tasks s) taskID of
        None \<Rightarrow> s
      | Some task \<Rightarrow>
          s\<lparr>tasks := AList.update taskID (task\<lparr>Task.Status := ''completed''\<rparr>) (tasks s),
            Scheduler.logger := Scheduler.logger s @
              [if success then Infof (''Task completed: '' @ taskID)
               else Errorf (''Task failed: '' @ taskID @ '' - '' @ errMsg)]\<rparr>)"

definition GetTasksByStatus :: "string \<Rightarrow> Scheduler \<Rightarrow> Task list \<times> Scheduler" where
  "GetTasksByStatus status s =
     (map snd (filter (\<lambda>(k, task). Task.Status task = status) (tasks s)), s)"

text \<open>
  \<^verbatim>\<open>ScheduleHook\<close> and \<^verbatim>\<open>ScheduleCommand\<close> take the string that
  \<^verbatim>\<open>generateTaskID\<close> returns (the clock reading, formatted to the second) as their
  first argument.
\<close>

definition ScheduleHook :: "string \<Rightarrow> string \<Rightarrow> string \<Rightarrow> bag \<Rightarrow> Scheduler \<Rightarrow> Scheduler" where
  "ScheduleHook newID agentID plugin params s =
     SubmitTask \<lparr>Task.ID = newID, AgentID = agentID, Type = ''hook'', Command = [],
                 Script = [], Plugin = plugin, Params = params, Timeout = 0,
                 Status = ''pending''\<rparr> s"

definition ScheduleCommand :: "string \<Rightarrow> string \<Rightarrow> string \<Rightarrow> int \<Rightarrow> Scheduler \<Rightarrow> Scheduler" where
  "ScheduleCommand newID agentID command timeout s =
     SubmitTask \<lparr>Task.ID = newID, AgentID = agentID, Type = ''command'', Command = command,
                 Script = [], Plugin = [], Params = [], Timeout = timeout,
                 Status = ''pending''\<rparr> s"

text \<open>The calls a client of the scheduler can make, and a run of such calls.\<close>

datatype call =
    CallSubmitTask Task
  | CallGetPendingTasks string
  | CallMarkTaskDone string bool string string
  | CallGetTasksByStatus string
  | CallScheduleHook string string string bag
  | CallScheduleCommand string string string int

fun call_scheduler :: "call \<Rightarrow> Scheduler \<Rightarrow> Scheduler" where
  "call_scheduler (CallSubmitTask task) s = SubmitTask task s"
| "call_scheduler (CallGetPendingTasks agentID) s = snd (GetPendingTasks agentID s)"
| "call_scheduler (CallMarkTaskDone taskID success output errMsg) s =
     MarkTaskDone taskID success output errMsg s"
| "call_scheduler (CallGetTasksByStatus status) s = snd (GetTasksByStatus status s)"
| "call_scheduler (CallScheduleHook newID agentID plugin params) s =
     ScheduleHook newID agentID plugin params s"
| "call_scheduler (CallScheduleCommand newID agentID command timeout) s =
     ScheduleCommand newID agentID command timeout s"

primrec calls_scheduler :: "call list \<Rightarrow> Scheduler \<Rightarrow> Scheduler" where
  "calls_scheduler [] s = s"
| "calls_scheduler (c # cs) s = calls_scheduler cs (call_scheduler c s)"

text \<open>The id under which a call stores a task, if it stores one.\<close>

fun submitted :: "call \<Rightarrow> string option" where
  "submitted (CallSubmitTask task) = Some (Task.ID task)"
| "submitted (CallScheduleHook newID agentID plugin params) = Some newID"
| "submitted (CallScheduleCommand newID agentID command timeout) = Some newID"
| "submitted (CallGetPendingTasks agentID) = None"
| "submitted (CallMarkTaskDone taskID success output errMsg) = None"
| "submitted (CallGetTasksByStatus status) = None"

text \<open>The position of a status on the path from pending to completed, if it is on it.\<close>

definition stage :: "string \<Rightarrow> nat option" where
  "stage status =
     (if status = ''pending'' then Some 0
      else if status = ''completed'' then Some 1
      else None)"

text \<open>The five statuses of the specification's task model.\<close>

definition specStatuses :: "string list" where
  "specStatuses = [''pending'', ''dispatched'', ''succeeded'', ''failed'', ''cancelled'']"

section \<open>The handlers of \<^verbatim>\<open>server/api\<close>\<close>

text \<open>
  A handler answers with \<^verbatim>\<open>c.JSON(code, body)\<close>. The request body arrives already
  decoded by \<^verbatim>\<open>ShouldBindJSON\<close>: \<open>Inl\<close> with the message of the binding error, or
  \<open>Inr\<close> with the bound struct. The router's pointer to the registry may be nil
  (\<open>None\<close>).
\<close>

datatype response = JSON nat bag

text \<open>
  What \<^verbatim>\<open>registerAgent\<close> obtains from its surroundings: the string returned by
  \<^verbatim>\<open>generateRandomID(8)\<close> and its three successive readings of the clock (the first
  one formatted by the time package).
\<close>

record registerEnv =
  randomID :: string
  nowUpdateTime :: string
  nowRegisteredAt :: time
  nowLastSeen :: time

text \<open>
  The struct that \<^verbatim>\<open>registerAgent\<close> builds from the request: the fields of the
  request, the status online and the readings of the clock.
\<close>

definition newAgentInfo :: "string \<Rightarrow> registerEnv \<Rightarrow> agentInfo \<Rightarrow> AgentInfo" where
  "newAgentInfo agentID env req =
     \<lparr>ID = agentID,
      Hostname = agentInfo.Hostname req,
      CPUType = agentInfo.CPUType req,
      CPULogic = agentInfo.CPULogic req,
      Memsum = agentInfo.Memsum req,
      Memory = agentInfo.Memory req,
      SN = agentInfo.SN req,
      Product = agentInfo.Product req,
      Brand = agentInfo.Brand req,
      Netcard = agentInfo.Netcard req,
      Basearch = agentInfo.Basearch req,
      Disk = agentInfo.Disk req,
      Raid = agentInfo.Raid req,
      IPMIIP = agentInfo.IPMIIP req,
      ManageIP = agentInfo.ManageIP req,
      StorageIP = agentInfo.StorageIP req,
      ParamIP = agentInfo.ParamIP req,
      OS = agentInfo.OS req,
      Status = ''online'',
      GPUNum = agentInfo.GPUNum req,
      GPUType = agentInfo.GPUType req,
      GPUVendors = agentInfo.GPUVendors req,
      DiskInfo = agentInfo.DiskInfo req,
      MemoryInfo = agentInfo.MemoryInfo req,
      CPUInfo = agentInfo.CPUInfo req,
      GPUInfo = agentInfo.GPUInfo req,
      NetworkInfo = agentInfo.NetworkInfo req,
      UpdateTime = nowUpdateTime env,
      AgentVersion = agentInfo.AgentVersion req,
      RegisteredAt = nowRegisteredAt env,
      LastSeen = nowLastSeen env\<rparr>"

definition registerAgent ::
  "registerEnv \<Rightarrow> string + agentInfo \<Rightarrow> string \<Rightarrow> string \<Rightarrow> Registry option
     \<Rightarrow> response \<times> Registry option" where
  "registerAgent env bound authorization tokenQuery reg =
     (case bound of
        Inl err \<Rightarrow> (JSON 400 [(''error'', JString err)], reg)
      | Inr req \<Rightarrow>
          if authorization = [] \<and> tokenQuery = [] then
            (JSON 401 [(''error'', JString ''authorization token required'')], reg)
          else
            (case reg of
               Some r \<Rightarrow>
                 (let agentID = agentInfo.Hostname req @ ''-'' @ randomID env;
                      info = newAgentInfo agentID env req;
                      (aid, r') = Register info r
                  in (JSON 200 [(''id'', JString aid),
                                (''status'', JString ''registered''),
                                (''message'', JString ''Agent registered successfully'')],
                      Some r'))
             | None \<Rightarrow>
                 (let agentID = agentInfo.Hostname req @ ''-'' @ randomID env
                  in (JSON 200 [(''id'', JString agentID),
                                (''status'', JString ''registered''),
                                (''message'', JString
                                   ''Agent registered successfully (registry not available)'')],
                      None))))"

text \<open>
  \<^verbatim>\<open>agentHeartbeat\<close>. The agent it works on is the registry's own struct, reached
  through the pointer that \<^verbatim>\<open>Get\<close> or \<^verbatim>\<open>List\<close> returned, so its assignments to
  the fields change the entry under the key where the struct was found, before
  \<^verbatim>\<open>Update\<close> is called. \<open>lookupAgent\<close> is the first part of the handler: it
  yields that key, the value of \<^verbatim>\<open>agentID\<close> and the struct. A conversion
  \<^verbatim>\<open>int(cpuLogic)\<close> of a \<^verbatim>\<open>float64\<close> truncates toward zero; for a value outside
  the 64-bit range Go leaves the result to the implementation, and \<open>toInt\<close> gives the
  smallest 64-bit integer, which is the result on amd64.
\<close>

definition toInt :: "real \<Rightarrow> int" where
  "toInt x =
     (let t = (if 0 \<le> x then \<lfloor>x\<rfloor> else \<lceil>x\<rceil>)
      in if - (2 ^ 63) \<le> t \<and> t < 2 ^ 63 then t else - (2 ^ 63))"

definition lookupAgent ::
  "string \<Rightarrow> heartbeatData \<Rightarrow> Registry \<Rightarrow> (string \<times> string \<times> AgentInfo) option" where
  "lookupAgent agentID hb r =
     (if agentID \<noteq> [] then
        (case Get r agentID of
           Some agent \<Rightarrow> Some (agentID, agentID, agent)
         | None \<Rightarrow> None)
      else
        (case heartbeatData.SystemInfo hb of
           None \<Rightarrow> None
         | Some info \<Rightarrow>
             (case map_of info ''hostname'' of
                Some (JString hostname) \<Rightarrow>
                  if hostname \<noteq> [] then
                    (case find (\<lambda>(k, a). Hostname a = hostname) (List_agents r) of
                       Some (k, a) \<Rightarrow> Some (k, ID a, a)
                     | None \<Rightarrow> None)
                  else None
              | _ \<Rightarrow> None)))"

definition mergeSystemInfo :: "bag option \<Rightarrow> AgentInfo \<Rightarrow> AgentInfo" where
  "mergeSystemInfo si agent =
     (case si of
        None \<Rightarrow> agent
      | Some info \<Rightarrow>
          (let a1 = (case map_of info ''hostname'' of
                       Some (JString hostname) \<Rightarrow> agent\<lparr>Hostname := hostname\<rparr>
                     | _ \<Rightarrow> agent);
               a2 = (case map_of info ''cpu_type'' of
                       Some (JString cpuType) \<Rightarrow> a1\<lparr>CPUType := cpuType\<rparr>
                     | _ \<Rightarrow> a1);
               a3 = (case map_of info ''cpu_logic'' of
                       Some (JNumber cpuLogic) \<Rightarrow> a2\<lparr>CPULogic := toInt cpuLogic\<rparr>
                     | _ \<Rightarrow> a2);
               a4 = (case map_of info ''memory'' of
                       Some (JString memory) \<Rightarrow> a3\<lparr>Memory := memory\<rparr>
                     | _ \<Rightarrow> a3)
           in a4))"

definition heartbeatReceived :: "string \<Rightarrow> response" where
  "heartbeatReceived agentID =
     JSON 200 [(''status'', JString ''ok''),
               (''message'', JString ''Heartbeat received''),
               (''agent_id'', JString agentID)]"

definition agentHeartbeat ::
  "time \<Rightarrow> string \<Rightarrow> string + heartbeatData \<Rightarrow> Registry option
     \<Rightarrow> response \<times> Registry option" where
  "agentHeartbeat now agentID bound reg =
     (case bound of
        Inl err \<Rightarrow> (JSON 400 [(''error'', JString err)], reg)
      | Inr hb \<Rightarrow>
          (case reg of
             None \<Rightarrow> (heartbeatReceived agentID, None)
           | Some r \<Rightarrow>
               (case lookupAgent agentID hb r of
                  None \<Rightarrow> (heartbeatReceived agentID, Some r)
                | Some (key, agentID', agent) \<Rightarrow>
                    (let a1 = agent\<lparr>LastSeen := now\<rparr>;
                         a2 = (if heartbeatData.Status hb \<noteq> []
                               then a1\<lparr>Status := heartbeatData.Status hb\<rparr>
                               else a1\<lparr>Status := ''online''\<rparr>);
                         a3 = mergeSystemInfo (heartbeatData.SystemInfo hb) a2;
                         r1 = r\<lparr>agents := AList.update key a3 (agents r)\<rparr>
                     in (heartbeatReceived agentID', Some (Update agentID' a3 r1))))))"

text \<open>
  The handlers of \<^verbatim>\<open>server/api/handler.go\<close>, which bind the body to a
  \<^verbatim>\<open>core.AgentInfo\<close>. \<open>hasPrefix\<close> is \<^verbatim>\<open>strings.HasPrefix\<close>. The handler's own
  logger is not modelled.
\<close>

definition hasPrefix :: "string \<Rightarrow> string \<Rightarrow> bool" where
  "hasPrefix s p \<longleftrightarrow> take (length p) s = p"

definition RegisterAgent ::
  "time \<Rightarrow> time \<Rightarrow> string + AgentInfo \<Rightarrow> string \<Rightarrow> Registry \<Rightarrow> response \<times> Registry" where
  "RegisterAgent now1 now2 bound token r =
     (case bound of
        Inl err \<Rightarrow> (JSON 400 [(''error'', JString err)], r)
      | Inr agent \<Rightarrow>
          (let agent' = agent\<lparr>RegisteredAt := now1, LastSeen := now2, Status := ''online''\<rparr>
           in if \<not> hasPrefix token ''Bearer '' then
                (JSON 401 [(''error'', JString ''invalid token'')], r)
              else
                (let (aid, r') = Register agent' r
                 in (JSON 200 [(''id'', JString aid), (''status'', JString ''registered'')],
                     r'))))"

definition Heartbeat :: "time \<Rightarrow> string + AgentInfo \<Rightarrow> Registry \<Rightarrow> response \<times> Registry" where
  "Heartbeat now bound r =
     (case bound of
        Inl err \<Rightarrow> (JSON 400 [(''error'', JString err)], r)
      | Inr agentInfo \<Rightarrow>
          (let agentInfo' = agentInfo\<lparr>LastSeen := now, Status := ''online''\<rparr>
           in (JSON 200 [(''status'', JString ''ok'')],
               Update (Hostname agentInfo') agentInfo' r)))"

text \<open>
  The operations that write to the registry, in the order in which the registry applies
  them. An operation of a handler carries the clock readings that the handler took
  before it reached the registry. \<open>stamp\<close> is the time that an operation carries for
  \<open>LastSeen\<close>; the sweep carries none.
\<close>

datatype operation =
    OpRegister AgentInfo
  | OpUpdate string AgentInfo
  | OpRegisterAgent registerEnv agentInfo string string
  | OpAgentHeartbeat time string heartbeatData
  | OpRegisterAgentHandler time time AgentInfo string
  | OpHeartbeatHandler time AgentInfo
  | OpCleanupRound time

fun stamp :: "operation \<Rightarrow> time option" where
  "stamp (OpRegister agent) = Some (LastSeen agent)"
| "stamp (OpUpdate aid agent) = Some (LastSeen agent)"
| "stamp (OpRegisterAgent env req authorization tokenQuery) = Some (nowLastSeen env)"
| "stamp (OpAgentHeartbeat now agentID hb) = Some now"
| "stamp (OpRegisterAgentHandler now1 now2 agent token) = Some now2"
| "stamp (OpHeartbeatHandler now agent) = Some now"
| "stamp (OpCleanupRound now) = None"

fun stamps :: "operation list \<Rightarrow> time list" where
  "stamps [] = []"
| "stamps (op # ops) = (case stamp op of None \<Rightarrow> stamps ops | Some t \<Rightarrow> t # stamps ops)"

fun apply_operation :: "operation \<Rightarrow> Registry \<Rightarrow> Registry" where
  "apply_operation (OpRegister agent) r = snd (Register agent r)"
| "apply_operation (OpUpdate aid agent) r = Update aid agent r"
| "apply_operation (OpRegisterAgent env req authorization tokenQuery) r =
     (case snd (registerAgent env (Inr req) authorization tokenQuery (Some r)) of
        Some r' \<Rightarrow> r'
      | None \<Rightarrow> r)"
| "apply_operation (OpAgentHeartbeat now agentID hb) r =
     (case snd (agentHeartbeat now agentID (Inr hb) (Some r)) of
        Some r' \<Rightarrow> r'
      | None \<Rightarrow> r)"
| "apply_operation (OpRegisterAgentHandler now1 now2 agent token) r =
     snd (RegisterAgent now1 now2 (Inr agent) token r)"
| "apply_operation (OpHeartbeatHandler now agent) r = snd (Heartbeat now (Inr agent) r)"
| "apply_operation (OpCleanupRound now) r = cleanupRound now r"

primrec apply_operations :: "operation list \<Rightarrow> Registry \<Rightarrow> Registry" where
  "apply_operations [] r = r"
| "apply_operations (op # ops) r = apply_operations ops (apply_operation op r)"

section \<open>The task executor of \<^verbatim>\<open>agent/core\<close>\<close>

record TaskResult =
  TaskID :: string
  Success :: bool
  Output :: string
  Error :: string

text \<open>
  A Go \<^verbatim>\<open>error\<close> value as the executor can tell them apart: the sentinel
  \<^verbatim>\<open>context.DeadlineExceeded\<close>, an \<^verbatim>\<open>*exec.ExitError\<close> (a process that ended with
  a non-zero status or by a signal) and any other error, each with the text that
  \<^verbatim>\<open>err.Error()\<close> returns.
\<close>

datatype error = DeadlineExceeded | ExitError string | OtherError string

fun Error_of :: "error \<Rightarrow> string" where
  "Error_of DeadlineExceeded = ''context deadline exceeded''"
| "Error_of (ExitError msg) = msg"
| "Error_of (OtherError msg) = msg"

record TaskExecutor =
  defaultTimeout :: duration

definition NewTaskExecutor :: "duration \<Rightarrow> TaskExecutor" where
  "NewTaskExecutor d = \<lparr>defaultTimeout = d\<rparr>"

definition int64 :: "int \<Rightarrow> int" where
  "int64 x = (x + 2 ^ 63) mod 2 ^ 64 - 2 ^ 63"

definition deadline :: "TaskExecutor \<Rightarrow> int \<Rightarrow> duration" where
  "deadline e timeout =
     (if timeout > 0 then int64 (int64 timeout * Second) else defaultTimeout e)"

text \<open>
  The operating system and the Go library as the executor uses them. A file has a
  content and permission bits; the files are a map from paths. \<open>CombinedOutput\<close> runs
  a command line under a deadline: it yields the output, the error and the files as
  the process left them. \<open>fmtDuration\<close> is the formatting of a duration by
  \<^verbatim>\<open>%v\<close>. \<open>nextRandom\<close> gives the random strings that \<^verbatim>\<open>os.CreateTemp\<close> draws,
  and \<open>openErr\<close>, \<open>writeErr\<close>, \<open>chmodErr\<close> are the errors, if any, with which the
  system refuses to create, write or change the mode of a file.
\<close>

record fileEntry =
  content :: string
  mode :: nat

type_synonym files = "string \<Rightarrow> fileEntry option"

record sys =
  GOOS :: string
  fmtDuration :: "duration \<Rightarrow> string"
  CombinedOutput :: "string list \<Rightarrow> duration \<Rightarrow> files \<Rightarrow> (string \<times> error option) \<times> files"
  TempDir :: string
  nextRandom :: "nat \<Rightarrow> string"
  openErr :: "error option"
  writeErr :: "error option"
  chmodErr :: "error option"

text \<open>
  The state the executor works on: the files, and the processes it has started, each
  with its command line and the files as they were when it started.
\<close>

record world =
  files :: files
  started :: "(string list \<times> files) list"

definition joinPath :: "string \<Rightarrow> string \<Rightarrow> string" where
  "joinPath dir name =
     (if dir \<noteq> [] \<and> last dir = CHR ''/'' then dir @ name else dir @ ''/'' @ name)"

text \<open>
  \<^verbatim>\<open>os.CreateTemp("", "nerve-script-*.sh")\<close>: the star is replaced by a random string;
  a name that exists already is skipped, up to 10000 times; the file is created empty
  with mode 0600. \<^verbatim>\<open>WriteString\<close> appends to the file, and leaves it as it was when
  it fails; \<^verbatim>\<open>os.Chmod\<close> sets the permission bits; \<^verbatim>\<open>os.Remove\<close> deletes the path.
  Closing the file changes nothing in this state.
\<close>

fun tryNames :: "nat \<Rightarrow> sys \<Rightarrow> nat \<Rightarrow> files \<Rightarrow> string option" where
  "tryNames 0 env i fs = None"
| "tryNames (Suc n) env i fs =
     (let name = joinPath (TempDir env) (''nerve-script-'' @ nextRandom env i @ ''.sh'')
      in if fs name = None then Some name else tryNames n env (Suc i) fs)"

definition CreateTemp :: "sys \<Rightarrow> files \<Rightarrow> error + (string \<times> files)" where
  "CreateTemp env fs =
     (case openErr env of
        Some err \<Rightarrow> Inl err
      | None \<Rightarrow>
          (case tryNames 10000 env 0 fs of
             None \<Rightarrow> Inl (OtherError ''file exists'')
           | Some name \<Rightarrow> Inr (name, fs(name \<mapsto> \<lparr>content = [], mode = 6 * 64\<rparr>))))"

definition WriteString :: "sys \<Rightarrow> string \<Rightarrow> string \<Rightarrow> files \<Rightarrow> error + files" where
  "WriteString env name s fs =
     (case writeErr env of
        Some err \<Rightarrow> Inl err
      | None \<Rightarrow>
          (case fs name of
             None \<Rightarrow> Inl (OtherError ''file already closed'')
           | Some f \<Rightarrow> Inr (fs(name \<mapsto> f\<lparr>content := content f @ s\<rparr>))))"

definition Chmod :: "sys \<Rightarrow> string \<Rightarrow> nat \<Rightarrow> files \<Rightarrow> error + files" where
  "Chmod env name m fs =
     (case chmodErr env of
        Some err \<Rightarrow> Inl err
      | None \<Rightarrow>
          (case fs name of
             None \<Rightarrow> Inl (OtherError ''no such file or directory'')
           | Some f \<Rightarrow> Inr (fs(name \<mapsto> f\<lparr>mode := m\<rparr>))))"

definition Remove :: "string \<Rightarrow> files \<Rightarrow> files" where
  "Remove name fs = fs(name := None)"

definition zeroResult :: TaskResult where
  "zeroResult = \<lparr>TaskID = [], Success = False, Output = [], Error = []\<rparr>"

definition finish :: "string \<Rightarrow> sys \<Rightarrow> duration \<Rightarrow> string \<Rightarrow> error option \<Rightarrow> TaskResult" where
  "finish what env t output err =
     (let result = zeroResult\<lparr>Success := (err = None), Output := output\<rparr>
      in case err of
           None \<Rightarrow> result
         | Some er \<Rightarrow>
             if er = DeadlineExceeded
             then result\<lparr>Error := what @ '' timeout after '' @ fmtDuration env t\<rparr>
             else result\<lparr>Error := Error_of er\<rparr>)"

definition ExecuteCommand ::
  "TaskExecutor \<Rightarrow> sys \<Rightarrow> string \<Rightarrow> int \<Rightarrow> world \<Rightarrow> (TaskResult \<times> error option) \<times> world" where
  "ExecuteCommand e env command timeout w =
     (let t = deadline e timeout;
          argv = (if GOOS env = ''windows'' then [''cmd'', ''/c'', command]
                  else [''sh'', ''-c'', command]);
          ((output, err), fs') = CombinedOutput env argv t (files w)
      in ((finish ''command'' env t output err, err),
          w\<lparr>files := fs', started := started w @ [(argv, files w)]\<rparr>))"

text \<open>
  \<^verbatim>\<open>ExecuteScript\<close>. The deferred \<^verbatim>\<open>os.Remove\<close> is registered once the file is
  created, so it runs at each of the returns that follow, which is the last line of the
  definition.
\<close>

definition ExecuteScript ::
  "TaskExecutor \<Rightarrow> sys \<Rightarrow> string \<Rightarrow> int \<Rightarrow> world \<Rightarrow> (TaskResult \<times> error option) \<times> world" where
  "ExecuteScript e env script timeout w =
     (let t = deadline e timeout
      in case CreateTemp env (files w) of
           Inl err \<Rightarrow> ((zeroResult\<lparr>Error := Error_of err\<rparr>, Some err), w)
         | Inr (name, fs1) \<Rightarrow>
             (let (ret, w') =
                (case WriteString env name script fs1 of
                   Inl err \<Rightarrow>
                     ((zeroResult\<lparr>Error := Error_of err\<rparr>, Some err), w\<lparr>files := fs1\<rparr>)
                 | Inr fs2 \<Rightarrow>
                     (case Chmod env name (7 * 64 + 5 * 8 + 5) fs2 of
                        Inl err \<Rightarrow>
                          ((zeroResult\<lparr>Error := Error_of err\<rparr>, Some err), w\<lparr>files := fs2\<rparr>)
                      | Inr fs3 \<Rightarrow>
                          (let argv = [''/bin/bash'', name];
                               ((output, err), fs4) = CombinedOutput env argv t fs3
                           in ((finish ''script'' env t output err, err),
                               w\<lparr>files := fs4, started := started w @ [(argv, fs3)]\<rparr>))))
              in (ret, w'\<lparr>files := Remove name (files w')\<rparr>)))"

section \<open>Values for the examples\<close>

text \<open>
  An agent struct and a task struct with zero values in the fields that are not given,
  and a system without failures whose commands do nothing.
\<close>

definition agentOf :: "string \<Rightarrow> string \<Rightarrow> time \<Rightarrow> AgentInfo" where
  "agentOf hostname status seen =
     \<lparr>ID = [], Hostname = hostname, CPUType = [], CPULogic = 0, Memsum = 0, Memory = [],
      SN = [], Product = [], Brand = [], Netcard = [], Basearch = [], Disk = [],
      Raid = [], IPMIIP = [], ManageIP = [], StorageIP = [], ParamIP = [], OS = [],
      Status = status, GPUNum = 0, GPUType = [], GPUVendors = [], DiskInfo = [],
      MemoryInfo = [], CPUInfo = [], GPUInfo = [], NetworkInfo = [], UpdateTime = [],
      AgentVersion = [], RegisteredAt = 0, LastSeen = seen\<rparr>"

definition requestOf :: "string \<Rightarrow> agentInfo" where
  "requestOf hostname =
     \<lparr>agentInfo.Hostname = hostname, CPUType = [], CPULogic = 0, Memsum = 0, Memory = [],
      SN = [], Product = [], Brand = [], Netcard = [], Basearch = [], Disk = [],
      Raid = [], IPMIIP = [], ManageIP = [], StorageIP = [], ParamIP = [], OS = [],
      GPUNum = 0, GPUType = [], GPUVendors = [], DiskInfo = [],
      MemoryInfo = [], CPUInfo = [], GPUInfo = [], NetworkInfo = [],
      AgentVersion = []\<rparr>"

definition commandTask :: "string \<Rightarrow> string \<Rightarrow> string \<Rightarrow> Task" where
  "commandTask tid agentID status =
     \<lparr>Task.ID = tid, AgentID = agentID, Type = ''command'', Command = ''true'', Script = [],
      Plugin = [], Params = [], Timeout = 0, Status = status\<rparr>"

definition quietSys :: sys where
  "quietSys =
     \<lparr>GOOS = ''linux'', fmtDuration = (\<lambda>d. []),
      CombinedOutput = (\<lambda>argv t fs. (([], None), fs)),
      TempDir = ''/tmp'', nextRandom = (\<lambda>i. ''0''),
      openErr = None, writeErr = None, chmodErr = None\<rparr>"

definition emptyWorld :: world where
  "emptyWorld = \<lparr>files = Map.empty, started = []\<rparr>"

text \<open>
  A system in which a command that is still running at the deadline is killed, so that
  \<^verbatim>\<open>CombinedOutput\<close> returns the \<^verbatim>\<open>*exec.ExitError\<close> of a process ended by the
  kill signal; and a system on which writing to a file fails.
\<close>

definition killingSys :: sys where
  "killingSys =
     quietSys\<lparr>CombinedOutput := (\<lambda>argv t fs. (([], Some (ExitError ''signal: killed'')), fs)),
              fmtDuration := (\<lambda>d. if d = Second then ''1s'' else [])\<rparr>"

definition fullDiskSys :: sys where
  "fullDiskSys = quietSys\<lparr>writeErr := Some (OtherError ''no space left on device'')\<rparr>"

section \<open>Facts about the maps\<close>

lemma stale_iff: "stale now a \<longleftrightarrow> now - LastSeen a > 300000000000"
  by (simp add: stale_def Sub_def offlineThreshold_def Minute_def Second_def
        maxDuration_def minDuration_def Let_def)

lemma map_of_update_same: "map_of (AList.update k v al) k = Some v"
  by (simp add: update_conv')

lemma map_of_update_other: "k' \<noteq> k \<Longrightarrow> map_of (AList.update k v al) k' = map_of al k'"
  by (simp add: update_conv')

lemma keys_update_present:
  "map_of al k = Some v' \<Longrightarrow> map fst (AList.update k v al) = map fst al"
  by (induction al) (auto split: if_splits)

lemma keys_update_absent:
  "map_of al k = None \<Longrightarrow> map fst (AList.update k v al) = map fst al @ [k]"
  by (induction al) (auto split: if_splits)

lemma Register_lookup:
  "Get (snd (Register agent r)) aid =
     (if aid = Hostname agent then Some (agent\<lparr>ID := Hostname agent\<rparr>) else Get r aid)"
  by (simp add: Register_def Get_def Let_def update_conv')

lemma Update_lookup:
  "Get (Update k agent r) aid =
     (if aid = k \<and> Get r k \<noteq> None then Some (agent\<lparr>ID := k\<rparr>) else Get r aid)"
  by (auto simp: Update_def Get_def update_conv' split: option.splits)

lemma cleanupRound_lookup:
  "Get (cleanupRound now r) aid =
     map_option (\<lambda>a. if stale now a then a\<lparr>Status := ''offline''\<rparr> else a) (Get r aid)"
proof -
  have "map_of (map (\<lambda>(k, a). (k, f a)) al) k = map_option f (map_of al k)"
    for f :: "AgentInfo \<Rightarrow> AgentInfo" and al :: "(string \<times> AgentInfo) list" and k
    by (induction al) auto
  then show ?thesis
    by (simp add: Get_def cleanupRound_def)
qed

lemma newAgentInfo_fields:
  "Hostname (newAgentInfo agentID env req) = agentInfo.Hostname req"
  "Status (newAgentInfo agentID env req) = ''online''"
  "RegisteredAt (newAgentInfo agentID env req) = nowRegisteredAt env"
  "LastSeen (newAgentInfo agentID env req) = nowLastSeen env"
  by (simp_all add: newAgentInfo_def)

lemma registerAgent_registry:
  "snd (registerAgent env (Inr req) authorization tokenQuery (Some r)) =
     (if authorization = [] \<and> tokenQuery = [] then Some r
      else Some (snd (Register
             (newAgentInfo (agentInfo.Hostname req @ ''-'' @ randomID env) env req) r)))"
  by (simp add: registerAgent_def Let_def case_prod_unfold)

lemma RegisterAgent_registry:
  "snd (RegisterAgent now1 now2 (Inr agent) token r) =
     (if \<not> hasPrefix token ''Bearer '' then r
      else snd (Register (agent\<lparr>RegisteredAt := now1, LastSeen := now2, Status := ''online''\<rparr>) r))"
  by (simp add: RegisterAgent_def Let_def case_prod_unfold)

section \<open>The registry\<close>

text \<open>
  Claim C10. For an id that the registry does not hold, \<^verbatim>\<open>Registry.Update\<close> returns
  the registry as it was: it inserts nothing. So a heartbeat that carries an unknown
  agent id (through \<^verbatim>\<open>agentHeartbeat\<close>, or through \<^verbatim>\<open>Heartbeat\<close> with an unknown
  hostname) is answered with status 200 and leaves the registry as it was. For an id
  that the registry holds, the entry after the update has its \<open>ID\<close> field equal to the
  key, whatever \<open>ID\<close> the supplied struct carried, and the keys of the registry are the
  same as before.
\<close>

theorem Update_frame:
  "(Get r aid = None \<longrightarrow> Update aid agent r = r) \<and>
   (Get r aid \<noteq> None \<longrightarrow>
      map_option ID (Get (Update aid agent r) aid) = Some aid \<and>
      map fst (agents (Update aid agent r)) = map fst (agents r)) \<and>
   (aid \<noteq> [] \<and> Get r aid = None \<longrightarrow>
      agentHeartbeat now aid (Inr hb) (Some r) = (heartbeatReceived aid, Some r)) \<and>
   (Get r (Hostname agent) = None \<longrightarrow>
      Heartbeat now (Inr agent) r = (JSON 200 [(''status'', JString ''ok'')], r))"
  by (auto simp: Update_def Get_def map_of_update_same keys_update_present
        agentHeartbeat_def lookupAgent_def Heartbeat_def Let_def split: option.splits)

theorem Update_frame_witness:
  "Get (snd (Register (agentOf ''h1'' ''online'' 0) NewRegistry)) ''ghost'' = None \<and>
   Update ''ghost'' (agentOf ''ghost'' ''online'' 5)
       (snd (Register (agentOf ''h1'' ''online'' 0) NewRegistry))
     = snd (Register (agentOf ''h1'' ''online'' 0) NewRegistry) \<and>
   agentHeartbeat 7 ''ghost''
       (Inr \<lparr>heartbeatData.Status = [], SystemInfo = None, Tasks = []\<rparr>)
       (Some (snd (Register (agentOf ''h1'' ''online'' 0) NewRegistry)))
     = (heartbeatReceived ''ghost'',
        Some (snd (Register (agentOf ''h1'' ''online'' 0) NewRegistry))) \<and>
   Get (snd (Register (agentOf ''h1'' ''online'' 0) NewRegistry)) ''h1'' \<noteq> None \<and>
   map_option ID
       (Get (Update ''h1'' ((agentOf ''other'' ''online'' 5)\<lparr>ID := ''zzz''\<rparr>)
               (snd (Register (agentOf ''h1'' ''online'' 0) NewRegistry))) ''h1'')
     = Some ''h1''"
proof -
  let ?r = "snd (Register (agentOf ''h1'' ''online'' 0) NewRegistry)"
  have absent: "Get ?r ''ghost'' = None"
    by (simp add: Get_def Register_def NewRegistry_def Let_def agentOf_def)
  have present: "Get ?r ''h1'' \<noteq> None"
    by (simp add: Get_def Register_def NewRegistry_def Let_def agentOf_def)
  show ?thesis
    using absent present
      Update_frame [of ?r "''ghost''" "agentOf ''ghost'' ''online'' 5" 7
        "\<lparr>heartbeatData.Status = [], SystemInfo = None, Tasks = []\<rparr>"]
      Update_frame [of ?r "''h1''" "(agentOf ''other'' ''online'' 5)\<lparr>ID := ''zzz''\<rparr>"]
    by simp
qed

lemma cleanupStaleAgents_keys:
  "map fst (agents (cleanupStaleAgents t0 lag n r)) = map fst (agents r)"
  by (induction n) (simp_all add: cleanupRound_def comp_def case_prod_unfold)

lemma cleanupStaleAgents_lookup:
  assumes "Get r aid = Some a"
  shows "Get (cleanupStaleAgents t0 lag n r) aid =
     Some (if \<exists>k<n. tickTime t0 cleanupInterval k + lag k - LastSeen a > offlineThreshold
           then a\<lparr>Status := ''offline''\<rparr> else a)"
proof (induction n)
  case 0
  then show ?case using assms by simp
next
  case (Suc n)
  have thr: "offlineThreshold = 300000000000"
    by (simp add: offlineThreshold_def Minute_def Second_def)
  show ?case
  proof (cases "tickTime t0 cleanupInterval n + lag n - LastSeen a > offlineThreshold")
    case True
    then have "\<exists>k<Suc n. tickTime t0 cleanupInterval k + lag k - LastSeen a > offlineThreshold"
      by blast
    then show ?thesis
      using True Suc by (simp add: cleanupRound_lookup stale_iff thr del: ex_simps)
  next
    case False
    then have "(\<exists>k<Suc n. tickTime t0 cleanupInterval k + lag k - LastSeen a > offlineThreshold)
       \<longleftrightarrow> (\<exists>k<n. tickTime t0 cleanupInterval k + lag k - LastSeen a > offlineThreshold)"
      by (auto simp: less_Suc_eq)
    then show ?thesis
      using False Suc by (simp add: cleanupRound_lookup stale_iff thr del: ex_simps)
  qed
qed

text \<open>
  Claim C7. The sweep compares with a threshold of five minutes and runs one round for
  each tick of a ticker whose period is one minute. One round, at the time \<open>now\<close>,
  keeps the keys of the registry (it removes no entry and adds none), sets the status
  to offline in every entry whose \<open>now - LastSeen\<close> exceeds the threshold, whatever
  the status was, and leaves every other entry as it was. The sweep started at \<open>t0\<close>
  is the registry itself before the first tick, and after one more tick it is one more
  round, at the time of that tick, one minute after the tick before, plus the lag. So
  after \<open>n\<close> ticks the keys are those of the registry at the start, an entry has the
  status offline, and is otherwise as it was, when at the round of one of these ticks
  its \<open>LastSeen\<close> was more than five minutes old, and every other entry is as it was.
\<close>

theorem cleanup_marks_stale_agents_offline:
  "cleanupInterval = 60 * Second \<and> offlineThreshold = 300 * Second \<and>
   map fst (agents (cleanupRound now r)) = map fst (agents r) \<and>
   (\<forall>aid a. Get r aid = Some a \<longrightarrow>
      Get (cleanupRound now r) aid =
        Some (if now - LastSeen a > offlineThreshold then a\<lparr>Status := ''offline''\<rparr> else a)) \<and>
   cleanupStaleAgents t0 lag 0 r = r \<and>
   cleanupStaleAgents t0 lag (Suc n) r =
     cleanupRound (t0 + (int n + 1) * (60 * Second) + lag n) (cleanupStaleAgents t0 lag n r) \<and>
   map fst (agents (cleanupStaleAgents t0 lag n r)) = map fst (agents r) \<and>
   (\<forall>aid a. Get r aid = Some a \<longrightarrow>
      Get (cleanupStaleAgents t0 lag n r) aid =
        Some (if \<exists>k<n. t0 + (int k + 1) * (60 * Second) + lag k - LastSeen a > 300 * Second
              then a\<lparr>Status := ''offline''\<rparr> else a))"
proof -
  have int: "cleanupInterval = 60 * Second" and thr: "offlineThreshold = 300 * Second"
    by (simp_all add: cleanupInterval_def offlineThreshold_def Minute_def)
  have thr': "offlineThreshold = 300000000000"
    by (simp add: offlineThreshold_def Minute_def Second_def)
  have keys: "map fst (agents (cleanupRound now r)) = map fst (agents r)"
    by (simp add: cleanupRound_def comp_def case_prod_unfold)
  have look: "Get (cleanupRound now r) aid =
      Some (if now - LastSeen a > offlineThreshold then a\<lparr>Status := ''offline''\<rparr> else a)"
    if "Get r aid = Some a" for aid a
    using that by (simp add: cleanupRound_lookup stale_iff thr')
  have step: "cleanupStaleAgents t0 lag (Suc n) r =
     cleanupRound (t0 + (int n + 1) * (60 * Second) + lag n) (cleanupStaleAgents t0 lag n r)"
    by (simp add: tickTime_def int)
  have loop: "Get (cleanupStaleAgents t0 lag n r) aid =
        Some (if \<exists>k<n. t0 + (int k + 1) * (60 * Second) + lag k - LastSeen a > 300 * Second
              then a\<lparr>Status := ''offline''\<rparr> else a)"
    if "Get r aid = Some a" for aid a
    using cleanupStaleAgents_lookup [OF that, of t0 lag n]
    unfolding tickTime_def int thr .
  have zero: "cleanupStaleAgents t0 lag 0 r = r"
    by simp
  show ?thesis
    using int thr keys look zero step loop cleanupStaleAgents_keys [of t0 lag n r]
    by blast
qed

theorem cleanup_marks_stale_agents_offline_witness:
  "Get (snd (Register (agentOf ''h1'' ''online'' 0) NewRegistry)) ''h1''
     = Some ((agentOf ''h1'' ''online'' 0)\<lparr>ID := ''h1''\<rparr>) \<and>
   map_option Status
     (Get (cleanupRound (301 * Second)
             (snd (Register (agentOf ''h1'' ''online'' 0) NewRegistry))) ''h1'')
     = Some ''offline'' \<and>
   map_option Status
     (Get (cleanupRound (300 * Second)
             (snd (Register (agentOf ''h1'' ''online'' 0) NewRegistry))) ''h1'')
     = Some ''online'' \<and>
   map_option Status
     (Get (cleanupStaleAgents 0 (\<lambda>k. 0) 5
             (snd (Register (agentOf ''h1'' ''online'' 0) NewRegistry))) ''h1'')
     = Some ''online'' \<and>
   map_option Status
     (Get (cleanupStaleAgents 0 (\<lambda>k. 0) 6
             (snd (Register (agentOf ''h1'' ''online'' 0) NewRegistry))) ''h1'')
     = Some ''offline''"
proof -
  let ?r = "snd (Register (agentOf ''h1'' ''online'' 0) NewRegistry)"
  let ?a = "(agentOf ''h1'' ''online'' 0)\<lparr>ID := ''h1''\<rparr>"
  have stored: "Get ?r ''h1'' = Some ?a"
    by (simp add: Register_lookup agentOf_def)
  have seen: "LastSeen ?a = 0" and status: "Status ?a = ''online''"
    by (simp_all add: agentOf_def)
  have five: "\<not> (\<exists>k<5::nat. 0 + (int k + 1) * (60 * Second) + 0 - LastSeen ?a > 300 * Second)"
    by (auto simp: seen Second_def)
  have six: "\<exists>k<6::nat. 0 + (int k + 1) * (60 * Second) + 0 - LastSeen ?a > 300 * Second"
    by (rule exI [of _ 5]) (simp add: seen Second_def)
  have thr: "offlineThreshold = 300 * Second"
    using cleanup_marks_stale_agents_offline [of 0 ?r 0 "\<lambda>k. 0" 0] by blast
  have "Get (cleanupRound (301 * Second) ?r) ''h1'' =
      Some (if 301 * Second - LastSeen ?a > offlineThreshold
            then ?a\<lparr>Status := ''offline''\<rparr> else ?a)"
    using stored cleanup_marks_stale_agents_offline [of "301 * Second" ?r 0 "\<lambda>k. 0" 0]
    by blast
  then have round1:
    "map_option Status (Get (cleanupRound (301 * Second) ?r) ''h1'') = Some ''offline''"
    by (simp add: thr seen Second_def)
  have "Get (cleanupRound (300 * Second) ?r) ''h1'' =
      Some (if 300 * Second - LastSeen ?a > offlineThreshold
            then ?a\<lparr>Status := ''offline''\<rparr> else ?a)"
    using stored cleanup_marks_stale_agents_offline [of "300 * Second" ?r 0 "\<lambda>k. 0" 0]
    by blast
  then have round2:
    "map_option Status (Get (cleanupRound (300 * Second) ?r) ''h1'') = Some ''online''"
    by (simp add: thr seen status Second_def)
  have "Get (cleanupStaleAgents 0 (\<lambda>k. 0) 5 ?r) ''h1'' =
      Some (if \<exists>k<5. 0 + (int k + 1) * (60 * Second) + 0 - LastSeen ?a > 300 * Second
            then ?a\<lparr>Status := ''offline''\<rparr> else ?a)"
    using stored cleanup_marks_stale_agents_offline [of 0 ?r 0 "\<lambda>k. 0" 5]
    by blast
  with five have run5: "Get (cleanupStaleAgents 0 (\<lambda>k. 0) 5 ?r) ''h1'' = Some ?a"
    by (simp only: if_False)
  have "Get (cleanupStaleAgents 0 (\<lambda>k. 0) 6 ?r) ''h1'' =
      Some (if \<exists>k<6. 0 + (int k + 1) * (60 * Second) + 0 - LastSeen ?a > 300 * Second
            then ?a\<lparr>Status := ''offline''\<rparr> else ?a)"
    using stored cleanup_marks_stale_agents_offline [of 0 ?r 0 "\<lambda>k. 0" 6]
    by blast
  with six have run6:
    "Get (cleanupStaleAgents 0 (\<lambda>k. 0) 6 ?r) ''h1'' = Some (?a\<lparr>Status := ''offline''\<rparr>)"
    by (simp only: if_True)
  show ?thesis
    using stored round1 round2 run5 run6 status by simp
qed

lemma registerAgent_Some:
  assumes "authorization \<noteq> [] \<or> tokenQuery \<noteq> []"
  shows "registerAgent env (Inr req) authorization tokenQuery (Some r) =
           (JSON 200 [(''id'', JString (agentInfo.Hostname req)),
                      (''status'', JString ''registered''),
                      (''message'', JString ''Agent registered successfully'')],
            Some (snd (Register
              (newAgentInfo (agentInfo.Hostname req @ ''-'' @ randomID env) env req) r)))"
  using assms
  by (auto simp: registerAgent_def Let_def case_prod_unfold Register_def newAgentInfo_fields)

lemma Register_keys:
  "map fst (agents (snd (Register agent r))) =
     (if Get r (Hostname agent) = None then map fst (agents r) @ [Hostname agent]
      else map fst (agents r))"
  by (auto simp: Register_def Get_def Let_def keys_update_present keys_update_absent)

lemma Update_keys: "map fst (agents (Update k a r)) = map fst (agents r)"
  by (auto simp: Update_def keys_update_present split: option.splits)

lemma RegisterAgent_Bearer:
  assumes "hasPrefix token ''Bearer ''"
  shows "RegisterAgent now1 now2 (Inr agent) token r =
           (JSON 200 [(''id'', JString (Hostname agent)), (''status'', JString ''registered'')],
            snd (Register
                   (agent\<lparr>RegisteredAt := now1, LastSeen := now2, Status := ''online''\<rparr>) r))"
  using assms by (simp add: RegisterAgent_def Let_def case_prod_unfold Register_def)

lemma mergeSystemInfo_hostname:
  "mergeSystemInfo (Some [(''hostname'', JString h)]) a = a\<lparr>Hostname := h\<rparr>"
  by (simp add: mergeSystemInfo_def)

text \<open>
  Claim C8, as stated, fails. A heartbeat for the agent h1 whose system information
  gives the hostname h2 changes the hostname of the entry and keeps the entry under the
  key h1. When the hostname h2 is registered afterwards, while an entry with that
  hostname exists, the answer carries the id h2, not the id h1 of the first
  registration, and the registry has a second entry. And \<^verbatim>\<open>Register\<close> itself sets
  no status: a struct with the status error is stored with the status error.
\<close>

theorem Register_renamed_hostname_counterexample:
  "map fst (agents (apply_operations
       [OpRegisterAgent
          \<lparr>randomID = ''aaaaaaaa'', nowUpdateTime = ''t'', nowRegisteredAt = 10, nowLastSeen = 11\<rparr>
          (requestOf ''h1'') ''Bearer x'' [],
        OpAgentHeartbeat 20 ''h1''
          \<lparr>heartbeatData.Status = [], SystemInfo = Some [(''hostname'', JString ''h2'')],
            Tasks = []\<rparr>]
       NewRegistry)) = [''h1''] \<and>
   map_option Hostname (Get (apply_operations
       [OpRegisterAgent
          \<lparr>randomID = ''aaaaaaaa'', nowUpdateTime = ''t'', nowRegisteredAt = 10, nowLastSeen = 11\<rparr>
          (requestOf ''h1'') ''Bearer x'' [],
        OpAgentHeartbeat 20 ''h1''
          \<lparr>heartbeatData.Status = [], SystemInfo = Some [(''hostname'', JString ''h2'')],
            Tasks = []\<rparr>]
       NewRegistry) ''h1'') = Some ''h2'' \<and>
   fst (registerAgent
          \<lparr>randomID = ''bbbbbbbb'', nowUpdateTime = ''u'', nowRegisteredAt = 30, nowLastSeen = 31\<rparr>
          (Inr (requestOf ''h2'')) ''Bearer x'' []
          (Some (apply_operations
             [OpRegisterAgent
                \<lparr>randomID = ''aaaaaaaa'', nowUpdateTime = ''t'', nowRegisteredAt = 10,
                  nowLastSeen = 11\<rparr>
                (requestOf ''h1'') ''Bearer x'' [],
              OpAgentHeartbeat 20 ''h1''
                \<lparr>heartbeatData.Status = [], SystemInfo = Some [(''hostname'', JString ''h2'')],
                  Tasks = []\<rparr>]
             NewRegistry)))
     = JSON 200 [(''id'', JString ''h2''), (''status'', JString ''registered''),
                 (''message'', JString ''Agent registered successfully'')] \<and>
   map fst (agents (apply_operations
       [OpRegisterAgent
          \<lparr>randomID = ''aaaaaaaa'', nowUpdateTime = ''t'', nowRegisteredAt = 10, nowLastSeen = 11\<rparr>
          (requestOf ''h1'') ''Bearer x'' [],
        OpAgentHeartbeat 20 ''h1''
          \<lparr>heartbeatData.Status = [], SystemInfo = Some [(''hostname'', JString ''h2'')],
            Tasks = []\<rparr>,
        OpRegisterAgent
          \<lparr>randomID = ''bbbbbbbb'', nowUpdateTime = ''u'', nowRegisteredAt = 30, nowLastSeen = 31\<rparr>
          (requestOf ''h2'') ''Bearer x'' []]
       NewRegistry)) = [''h1'', ''h2''] \<and>
   map_option Status (Get (snd (Register (agentOf ''h3'' ''error'' 5) NewRegistry)) ''h3'')
     = Some ''error''"
proof -
  let ?e1 = "\<lparr>randomID = ''aaaaaaaa'', nowUpdateTime = ''t'', nowRegisteredAt = 10, nowLastSeen = 11\<rparr>"
  let ?e2 = "\<lparr>randomID = ''bbbbbbbb'', nowUpdateTime = ''u'', nowRegisteredAt = 30, nowLastSeen = 31\<rparr>"
  let ?hb = "\<lparr>heartbeatData.Status = [], SystemInfo = Some [(''hostname'', JString ''h2'')],
              Tasks = []\<rparr>"
  let ?i1 = "newAgentInfo ''h1-aaaaaaaa'' ?e1 (requestOf ''h1'')"
  define r1 where "r1 = snd (Register ?i1 NewRegistry)"
  have host: "agentInfo.Hostname (requestOf h) = h" for h
    by (simp add: requestOf_def)
  have op1: "apply_operation (OpRegisterAgent ?e1 (requestOf ''h1'') ''Bearer x'' []) NewRegistry = r1"
    by (simp add: registerAgent_registry host r1_def)
  have g0: "Get NewRegistry k = None" and k0: "agents NewRegistry = []" for k
    by (simp_all add: Get_def NewRegistry_def)
  have k1: "map fst (agents r1) = [''h1'']"
    by (simp add: r1_def Register_keys newAgentInfo_fields host g0 k0)
  have g1: "Get r1 k = (if k = ''h1'' then Some (?i1\<lparr>ID := ''h1''\<rparr>) else None)" for k
    by (simp add: r1_def Register_lookup newAgentInfo_fields host g0)
  define a3 where "a3 = (?i1\<lparr>ID := ''h1'', LastSeen := 20, Status := ''online'', Hostname := ''h2''\<rparr>)"
  define r2 where "r2 = Update ''h1'' a3 (r1\<lparr>agents := AList.update ''h1'' a3 (agents r1)\<rparr>)"
  have look: "lookupAgent ''h1'' ?hb r1 = Some (''h1'', ''h1'', ?i1\<lparr>ID := ''h1''\<rparr>)"
    by (simp add: lookupAgent_def g1)
  have op2: "apply_operation (OpAgentHeartbeat 20 ''h1'' ?hb) r1 = r2"
    by (simp add: agentHeartbeat_def look Let_def mergeSystemInfo_hostname r2_def a3_def)
  have gmid: "Get (r1\<lparr>agents := AList.update ''h1'' a3 (agents r1)\<rparr>) k =
      (if k = ''h1'' then Some a3 else None)" for k
    using g1 [of k] by (simp add: Get_def update_conv')
  have g2: "Get r2 k = (if k = ''h1'' then Some (a3\<lparr>ID := ''h1''\<rparr>) else None)" for k
    by (simp add: r2_def Update_lookup gmid)
  have kmid: "map fst (agents (r1\<lparr>agents := AList.update ''h1'' a3 (agents r1)\<rparr>)) = [''h1'']"
    using k1 g1 [of "''h1''"] by (simp add: Get_def keys_update_present)
  have k2: "map fst (agents r2) = [''h1'']"
    using kmid by (simp add: r2_def Update_keys)
  have h2: "map_option Hostname (Get r2 ''h1'') = Some ''h2''"
    by (simp add: g2 a3_def)
  have reg3: "registerAgent ?e2 (Inr (requestOf ''h2'')) ''Bearer x'' [] (Some r2) =
           (JSON 200 [(''id'', JString ''h2''), (''status'', JString ''registered''),
                      (''message'', JString ''Agent registered successfully'')],
            Some (snd (Register (newAgentInfo ''h2-bbbbbbbb'' ?e2 (requestOf ''h2'')) r2)))"
    using registerAgent_Some [of "''Bearer x''" "[]" ?e2 "requestOf ''h2''" r2]
    by (simp add: host)
  have k3: "map fst (agents (snd (Register (newAgentInfo ''h2-bbbbbbbb'' ?e2 (requestOf ''h2'')) r2)))
      = [''h1'', ''h2'']"
    by (simp add: Register_keys newAgentInfo_fields host g2 k2)
  have direct: "map_option Status (Get (snd (Register (agentOf ''h3'' ''error'' 5) NewRegistry)) ''h3'')
     = Some ''error''"
    by (simp add: Register_lookup agentOf_def)
  show ?thesis
    using op1 op2 k2 h2 reg3 k3 direct by simp
qed

text \<open>
  Claim C8, amended. Registration is idempotent on the key of the registry, which is
  the hostname of the registered struct. \<^verbatim>\<open>Register\<close> returns the hostname as the
  id, so registering it again returns the id of the first registration; it stores the
  struct it is given under that key, with the \<open>ID\<close> set to the key and the status
  and times as given, and leaves every other entry; when the hostname is already a key
  the keys are the same afterwards (no error and no second key), otherwise the key is
  added; keys stay distinct. A registration through \<^verbatim>\<open>registerAgent\<close> that carries
  a token is answered with status 200 and that id and registers the struct made of the
  fields of the request, the status online and, as \<open>RegisteredAt\<close> and \<open>LastSeen\<close>,
  the clock readings of the handler; a registration through \<^verbatim>\<open>RegisterAgent\<close> with
  a bearer token is answered likewise and registers the struct of the request with
  the status online and the clock readings of that handler.
\<close>

theorem Register_idempotent_on_hostname:
  "fst (Register agent r) = Hostname agent \<and>
   (\<forall>k. Get (snd (Register agent r)) k =
      (if k = Hostname agent then Some (agent\<lparr>ID := Hostname agent\<rparr>) else Get r k)) \<and>
   map fst (agents (snd (Register agent r))) =
     (if Get r (Hostname agent) = None then map fst (agents r) @ [Hostname agent]
      else map fst (agents r)) \<and>
   (distinct (map fst (agents r)) \<longrightarrow> distinct (map fst (agents (snd (Register agent r))))) \<and>
   (authorization \<noteq> [] \<or> tokenQuery \<noteq> [] \<longrightarrow>
      registerAgent env (Inr req) authorization tokenQuery (Some r) =
        (JSON 200 [(''id'', JString (agentInfo.Hostname req)),
                   (''status'', JString ''registered''),
                   (''message'', JString ''Agent registered successfully'')],
         Some (snd (Register
                   \<lparr>ID = agentInfo.Hostname req @ ''-'' @ randomID env,
                     Hostname = agentInfo.Hostname req,
                     CPUType = agentInfo.CPUType req,
                     CPULogic = agentInfo.CPULogic req,
                     Memsum = agentInfo.Memsum req,
                     Memory = agentInfo.Memory req,
                     SN = agentInfo.SN req,
                     Product = agentInfo.Product req,
                     Brand = agentInfo.Brand req,
                     Netcard = agentInfo.Netcard req,
                     Basearch = agentInfo.Basearch req,
                     Disk = agentInfo.Disk req,
                     Raid = agentInfo.Raid req,
                     IPMIIP = agentInfo.IPMIIP req,
                     ManageIP = agentInfo.ManageIP req,
                     StorageIP = agentInfo.StorageIP req,
                     ParamIP = agentInfo.ParamIP req,
                     OS = agentInfo.OS req,
                     Status = ''online'',
                     GPUNum = agentInfo.GPUNum req,
                     GPUType = agentInfo.GPUType req,
                     GPUVendors = agentInfo.GPUVendors req,
                     DiskInfo = agentInfo.DiskInfo req,
                     MemoryInfo = agentInfo.MemoryInfo req,
                     CPUInfo = agentInfo.CPUInfo req,
                     GPUInfo = agentInfo.GPUInfo req,
                     NetworkInfo = agentInfo.NetworkInfo req,
                     UpdateTime = nowUpdateTime env,
                     AgentVersion = agentInfo.AgentVersion req,
                     RegisteredAt = nowRegisteredAt env,
                     LastSeen = nowLastSeen env\<rparr>
                   r)))) \<and>
   (hasPrefix token ''Bearer '' \<longrightarrow>
      RegisterAgent now1 now2 (Inr agent) token r =
        (JSON 200 [(''id'', JString (Hostname agent)), (''status'', JString ''registered'')],
         snd (Register
                (agent\<lparr>RegisteredAt := now1, LastSeen := now2, Status := ''online''\<rparr>) r)))"
proof -
  have reg: "fst (Register agent r) = Hostname agent"
    by (simp add: Register_def Let_def)
  have got: "Get (snd (Register agent r)) k =
      (if k = Hostname agent then Some (agent\<lparr>ID := Hostname agent\<rparr>) else Get r k)" for k
    by (rule Register_lookup)
  have dist: "distinct (map fst (agents (snd (Register agent r))))"
    if "distinct (map fst (agents r))"
    using that by (simp add: Register_def Let_def distinct_update)
  have info: "newAgentInfo (agentInfo.Hostname req @ ''-'' @ randomID env) env req =
                   \<lparr>ID = agentInfo.Hostname req @ ''-'' @ randomID env,
                     Hostname = agentInfo.Hostname req,
                     CPUType = agentInfo.CPUType req,
                     CPULogic = agentInfo.CPULogic req,
                     Memsum = agentInfo.Memsum req,
                     Memory = agentInfo.Memory req,
                     SN = agentInfo.SN req,
                     Product = agentInfo.Product req,
                     Brand = agentInfo.Brand req,
                     Netcard = agentInfo.Netcard req,
                     Basearch = agentInfo.Basearch req,
                     Disk = agentInfo.Disk req,
                     Raid = agentInfo.Raid req,
                     IPMIIP = agentInfo.IPMIIP req,
                     ManageIP = agentInfo.ManageIP req,
                     StorageIP = agentInfo.StorageIP req,
                     ParamIP = agentInfo.ParamIP req,
                     OS = agentInfo.OS req,
                     Status = ''online'',
                     GPUNum = agentInfo.GPUNum req,
                     GPUType = agentInfo.GPUType req,
                     GPUVendors = agentInfo.GPUVendors req,
                     DiskInfo = agentInfo.DiskInfo req,
                     MemoryInfo = agentInfo.MemoryInfo req,
                     CPUInfo = agentInfo.CPUInfo req,
                     GPUInfo = agentInfo.GPUInfo req,
                     NetworkInfo = agentInfo.NetworkInfo req,
                     UpdateTime = nowUpdateTime env,
                     AgentVersion = agentInfo.AgentVersion req,
                     RegisteredAt = nowRegisteredAt env,
                     LastSeen = nowLastSeen env\<rparr>"
    by (simp add: newAgentInfo_def)
  have router: "registerAgent env (Inr req) authorization tokenQuery (Some r) =
        (JSON 200 [(''id'', JString (agentInfo.Hostname req)),
                   (''status'', JString ''registered''),
                   (''message'', JString ''Agent registered successfully'')],
         Some (snd (Register
                   \<lparr>ID = agentInfo.Hostname req @ ''-'' @ randomID env,
                     Hostname = agentInfo.Hostname req,
                     CPUType = agentInfo.CPUType req,
                     CPULogic = agentInfo.CPULogic req,
                     Memsum = agentInfo.Memsum req,
                     Memory = agentInfo.Memory req,
                     SN = agentInfo.SN req,
                     Product = agentInfo.Product req,
                     Brand = agentInfo.Brand req,
                     Netcard = agentInfo.Netcard req,
                     Basearch = agentInfo.Basearch req,
                     Disk = agentInfo.Disk req,
                     Raid = agentInfo.Raid req,
                     IPMIIP = agentInfo.IPMIIP req,
                     ManageIP = agentInfo.ManageIP req,
                     StorageIP = agentInfo.StorageIP req,
                     ParamIP = agentInfo.ParamIP req,
                     OS = agentInfo.OS req,
                     Status = ''online'',
                     GPUNum = agentInfo.GPUNum req,
                     GPUType = agentInfo.GPUType req,
                     GPUVendors = agentInfo.GPUVendors req,
                     DiskInfo = agentInfo.DiskInfo req,
                     MemoryInfo = agentInfo.MemoryInfo req,
                     CPUInfo = agentInfo.CPUInfo req,
                     GPUInfo = agentInfo.GPUInfo req,
                     NetworkInfo = agentInfo.NetworkInfo req,
                     UpdateTime = nowUpdateTime env,
                     AgentVersion = agentInfo.AgentVersion req,
                     RegisteredAt = nowRegisteredAt env,
                     LastSeen = nowLastSeen env\<rparr>
                   r)))"
    if "authorization \<noteq> [] \<or> tokenQuery \<noteq> []"
    using registerAgent_Some [OF that, of env req r] unfolding info .
  have handler: "RegisterAgent now1 now2 (Inr agent) token r =
        (JSON 200 [(''id'', JString (Hostname agent)), (''status'', JString ''registered'')],
         snd (Register
                (agent\<lparr>RegisteredAt := now1, LastSeen := now2, Status := ''online''\<rparr>) r))"
    if "hasPrefix token ''Bearer ''"
    using that by (rule RegisterAgent_Bearer)
  show ?thesis
    using reg got Register_keys [of agent r] dist router handler by blast
qed

theorem Register_idempotent_on_hostname_witness:
  "Get (snd (Register (agentOf ''h1'' ''online'' 0) NewRegistry)) ''h1'' \<noteq> None \<and>
   distinct (map fst (agents (snd (Register (agentOf ''h1'' ''online'' 0) NewRegistry)))) \<and>
   fst (Register (agentOf ''h1'' ''online'' 0) NewRegistry) = ''h1'' \<and>
   fst (Register (agentOf ''h1'' ''error'' 5)
          (snd (Register (agentOf ''h1'' ''online'' 0) NewRegistry))) = ''h1'' \<and>
   map fst (agents (snd (Register (agentOf ''h1'' ''error'' 5)
          (snd (Register (agentOf ''h1'' ''online'' 0) NewRegistry))))) = [''h1''] \<and>
   fst (registerAgent
          \<lparr>randomID = ''aaaaaaaa'', nowUpdateTime = ''t'', nowRegisteredAt = 20, nowLastSeen = 21\<rparr>
          (Inr (requestOf ''h1'')) ''Bearer x'' []
          (Some (snd (Register (agentOf ''h1'' ''online'' 0) NewRegistry))))
     = JSON 200 [(''id'', JString ''h1''), (''status'', JString ''registered''),
                 (''message'', JString ''Agent registered successfully'')] \<and>
   map fst (agents (apply_operation
      (OpRegisterAgent
         \<lparr>randomID = ''aaaaaaaa'', nowUpdateTime = ''t'', nowRegisteredAt = 20, nowLastSeen = 21\<rparr>
         (requestOf ''h1'') ''Bearer x'' [])
      (snd (Register (agentOf ''h1'' ''online'' 0) NewRegistry)))) = [''h1''] \<and>
   map_option (\<lambda>a. (Status a, RegisteredAt a, LastSeen a))
     (Get (apply_operation
      (OpRegisterAgent
         \<lparr>randomID = ''aaaaaaaa'', nowUpdateTime = ''t'', nowRegisteredAt = 20, nowLastSeen = 21\<rparr>
         (requestOf ''h1'') ''Bearer x'' [])
      (snd (Register (agentOf ''h1'' ''online'' 0) NewRegistry))) ''h1'')
     = Some (''online'', 20, 21) \<and>
   hasPrefix ''Bearer x'' ''Bearer '' \<and>
   fst (RegisterAgent 30 31 (Inr (agentOf ''h1'' ''error'' 5)) ''Bearer x''
          (snd (Register (agentOf ''h1'' ''online'' 0) NewRegistry)))
     = JSON 200 [(''id'', JString ''h1''), (''status'', JString ''registered'')] \<and>
   map fst (agents (snd (RegisterAgent 30 31 (Inr (agentOf ''h1'' ''error'' 5)) ''Bearer x''
          (snd (Register (agentOf ''h1'' ''online'' 0) NewRegistry))))) = [''h1''] \<and>
   map_option (\<lambda>a. (Status a, RegisteredAt a, LastSeen a))
     (Get (snd (RegisterAgent 30 31 (Inr (agentOf ''h1'' ''error'' 5)) ''Bearer x''
          (snd (Register (agentOf ''h1'' ''online'' 0) NewRegistry)))) ''h1'')
     = Some (''online'', 30, 31)"
proof -
  let ?r = "snd (Register (agentOf ''h1'' ''online'' 0) NewRegistry)"
  let ?env = "\<lparr>randomID = ''aaaaaaaa'', nowUpdateTime = ''t'', nowRegisteredAt = 20, nowLastSeen = 21\<rparr>"
  let ?b = "(agentOf ''h1'' ''error'' 5)\<lparr>RegisteredAt := 30, LastSeen := 31, Status := ''online''\<rparr>"
  have g0: "Get NewRegistry k = None" and k0: "agents NewRegistry = []" for k
    by (simp_all add: Get_def NewRegistry_def)
  have host: "Hostname (agentOf ''h1'' st t) = ''h1''"
    "agentInfo.Hostname (requestOf ''h1'') = ''h1''" for st t
    by (simp_all add: agentOf_def requestOf_def)
  have hostb: "Hostname ?b = ''h1''"
    by (simp add: agentOf_def)
  have first: "fst (Register (agentOf ''h1'' ''online'' 0) NewRegistry) = ''h1''"
    and keys: "map fst (agents ?r) = [''h1'']"
    and present: "Get ?r ''h1'' \<noteq> None"
    using Register_idempotent_on_hostname [of "agentOf ''h1'' ''online'' 0" NewRegistry]
    by (simp_all add: host g0 k0)
  have dist: "distinct (map fst (agents ?r))"
    using keys by simp
  have again: "fst (Register (agentOf ''h1'' ''error'' 5) ?r) = ''h1''"
    and keys2: "map fst (agents (snd (Register (agentOf ''h1'' ''error'' 5) ?r))) = [''h1'']"
    using present keys Register_idempotent_on_hostname [of "agentOf ''h1'' ''error'' 5" ?r]
    by (simp_all add: host)
  have tok: "''Bearer x'' \<noteq> [] \<or> ([]::string) \<noteq> []"
    by simp
  have pre: "hasPrefix ''Bearer x'' ''Bearer ''"
    by (simp add: hasPrefix_def)
  let ?i = "newAgentInfo ''h1-aaaaaaaa'' ?env (requestOf ''h1'')"
  have info: "?i = \<lparr>ID = agentInfo.Hostname (requestOf ''h1'') @ ''-'' @ randomID ?env,
                     Hostname = agentInfo.Hostname (requestOf ''h1''),
                     CPUType = agentInfo.CPUType (requestOf ''h1''),
                     CPULogic = agentInfo.CPULogic (requestOf ''h1''),
                     Memsum = agentInfo.Memsum (requestOf ''h1''),
                     Memory = agentInfo.Memory (requestOf ''h1''),
                     SN = agentInfo.SN (requestOf ''h1''),
                     Product = agentInfo.Product (requestOf ''h1''),
                     Brand = agentInfo.Brand (requestOf ''h1''),
                     Netcard = agentInfo.Netcard (requestOf ''h1''),
                     Basearch = agentInfo.Basearch (requestOf ''h1''),
                     Disk = agentInfo.Disk (requestOf ''h1''),
                     Raid = agentInfo.Raid (requestOf ''h1''),
                     IPMIIP = agentInfo.IPMIIP (requestOf ''h1''),
                     ManageIP = agentInfo.ManageIP (requestOf ''h1''),
                     StorageIP = agentInfo.StorageIP (requestOf ''h1''),
                     ParamIP = agentInfo.ParamIP (requestOf ''h1''),
                     OS = agentInfo.OS (requestOf ''h1''),
                     Status = ''online'',
                     GPUNum = agentInfo.GPUNum (requestOf ''h1''),
                     GPUType = agentInfo.GPUType (requestOf ''h1''),
                     GPUVendors = agentInfo.GPUVendors (requestOf ''h1''),
                     DiskInfo = agentInfo.DiskInfo (requestOf ''h1''),
                     MemoryInfo = agentInfo.MemoryInfo (requestOf ''h1''),
                     CPUInfo = agentInfo.CPUInfo (requestOf ''h1''),
                     GPUInfo = agentInfo.GPUInfo (requestOf ''h1''),
                     NetworkInfo = agentInfo.NetworkInfo (requestOf ''h1''),
                     UpdateTime = nowUpdateTime ?env,
                     AgentVersion = agentInfo.AgentVersion (requestOf ''h1''),
                     RegisteredAt = nowRegisteredAt ?env,
                     LastSeen = nowLastSeen ?env\<rparr>"
    by (simp add: newAgentInfo_def host)
  have router: "registerAgent ?env (Inr (requestOf ''h1'')) ''Bearer x'' [] (Some ?r) =
        (JSON 200 [(''id'', JString ''h1''), (''status'', JString ''registered''),
                   (''message'', JString ''Agent registered successfully'')],
         Some (snd (Register ?i ?r)))"
    using tok Register_idempotent_on_hostname
        [of "agentOf ''h1'' ''error'' 5" ?r "''Bearer x''" "[]" ?env "requestOf ''h1''"
            "''Bearer x''" 30 31]
    unfolding info [symmetric] by (simp add: host)
  have applied: "apply_operation (OpRegisterAgent ?env (requestOf ''h1'') ''Bearer x'' []) ?r
      = snd (Register ?i ?r)"
    using router by simp
  have rkeys: "map fst (agents (snd (Register ?i ?r))) = [''h1'']"
    and rgot: "Get (snd (Register ?i ?r)) ''h1'' = Some (?i\<lparr>ID := ''h1''\<rparr>)"
    using present keys Register_idempotent_on_hostname [of ?i ?r]
    by (simp_all add: newAgentInfo_fields host)
  have rfields: "map_option (\<lambda>a. (Status a, RegisteredAt a, LastSeen a))
      (Get (snd (Register ?i ?r)) ''h1'') = Some (''online'', 20, 21)"
    by (simp add: rgot newAgentInfo_fields)
  have handler: "RegisterAgent 30 31 (Inr (agentOf ''h1'' ''error'' 5)) ''Bearer x'' ?r =
        (JSON 200 [(''id'', JString ''h1''), (''status'', JString ''registered'')],
         snd (Register ?b ?r))"
    using pre Register_idempotent_on_hostname
        [of "agentOf ''h1'' ''error'' 5" ?r "''Bearer x''" "[]" ?env "requestOf ''h1''"
            "''Bearer x''" 30 31]
    by (simp add: host)
  have hkeys: "map fst (agents (snd (Register ?b ?r))) = [''h1'']"
    and hgot: "Get (snd (Register ?b ?r)) ''h1'' = Some (?b\<lparr>ID := ''h1''\<rparr>)"
    using present keys Register_idempotent_on_hostname [of ?b ?r]
    by (simp_all add: hostb)
  have hfields: "map_option (\<lambda>a. (Status a, RegisteredAt a, LastSeen a))
      (Get (snd (Register ?b ?r)) ''h1'') = Some (''online'', 30, 31)"
    by (simp add: hgot)
  show ?thesis
    using present dist first again keys2 tok router applied rkeys rfields pre handler hkeys
      hfields
    by simp
qed

section \<open>The scheduler's task map\<close>

lemma stage_cases: "stage st = Some i \<longleftrightarrow> (st = ''pending'' \<and> i = 0) \<or> (st = ''completed'' \<and> i = 1)"
  by (auto simp: stage_def)

lemma SubmitTask_lookup:
  "map_of (tasks (SubmitTask task s)) k =
     (if k = Task.ID task then Some (task\<lparr>Task.Status := ''pending''\<rparr>) else map_of (tasks s) k)"
  by (simp add: SubmitTask_def Let_def update_conv')

lemma MarkTaskDone_lookup:
  "map_of (tasks (MarkTaskDone taskID success output errMsg s)) k =
     (if k = taskID then map_option (\<lambda>task. task\<lparr>Task.Status := ''completed''\<rparr>) (map_of (tasks s) k)
      else map_of (tasks s) k)"
  by (auto simp: MarkTaskDone_def update_conv' split: option.splits)

lemma call_lookup:
  "map_of (tasks (call_scheduler c s)) k = Some task' \<Longrightarrow>
     (submitted c = Some k \<and> Task.Status task' = ''pending'') \<or>
     (\<exists>task. map_of (tasks s) k = Some task \<and>
        (task' = task \<or> task' = task\<lparr>Task.Status := ''completed''\<rparr>))"
  by (cases c)
     (auto simp: SubmitTask_lookup MarkTaskDone_lookup GetPendingTasks_def GetTasksByStatus_def
        ScheduleHook_def ScheduleCommand_def split: if_splits)

lemma call_keeps:
  "map_of (tasks s) k = Some task \<Longrightarrow> submitted c \<noteq> Some k \<Longrightarrow>
     map_of (tasks (call_scheduler c s)) k = Some task \<or>
     map_of (tasks (call_scheduler c s)) k = Some (task\<lparr>Task.Status := ''completed''\<rparr>)"
  by (cases c)
     (auto simp: SubmitTask_lookup MarkTaskDone_lookup GetPendingTasks_def GetTasksByStatus_def
        ScheduleHook_def ScheduleCommand_def split: if_splits)

lemma calls_statuses:
  "(\<And>k task. map_of (tasks s) k = Some task \<Longrightarrow>
       Task.Status task = ''pending'' \<or> Task.Status task = ''completed'') \<Longrightarrow>
   map_of (tasks (calls_scheduler cs s)) k = Some task \<Longrightarrow>
   Task.Status task = ''pending'' \<or> Task.Status task = ''completed''"
proof (induction cs arbitrary: s k task)
  case Nil
  then show ?case by simp
next
  case (Cons c cs)
  have "Task.Status t' = ''pending'' \<or> Task.Status t' = ''completed''"
    if "map_of (tasks (call_scheduler c s)) k' = Some t'" for k' t'
    using call_lookup [OF that] Cons.prems(1) by auto
  with Cons.IH [of "call_scheduler c s" k task] Cons.prems(2) show ?case
    by simp
qed

text \<open>
  Claim C1, as stated, fails: \<^verbatim>\<open>GetPendingTasks\<close> only reads. After one pending task
  is submitted for the agent i1, the first call returns it and the second call, made
  right after, returns it again.
\<close>

theorem GetPendingTasks_second_call_counterexample:
  "fst (GetPendingTasks ''i1''
          (snd (GetPendingTasks ''i1''
                  (SubmitTask (commandTask ''t1'' ''i1'' ''pending'') (NewScheduler NewRegistry)))))
     = [commandTask ''t1'' ''i1'' ''pending''] \<and>
   fst (GetPendingTasks ''i1''
          (SubmitTask (commandTask ''t1'' ''i1'' ''pending'') (NewScheduler NewRegistry)))
     = [commandTask ''t1'' ''i1'' ''pending'']"
  by (simp add: GetPendingTasks_def SubmitTask_def NewScheduler_def commandTask_def Let_def)

text \<open>
  Claim C1, amended. For every agent id, \<^verbatim>\<open>GetPendingTasks\<close> returns exactly the
  tasks of the task map that are targeted at the agent and whose status is pending, and
  it leaves the scheduler as it was: no task is marked, so a call repeated right after
  returns the same tasks.
\<close>

theorem GetPendingTasks_reads_only:
  "set (fst (GetPendingTasks agentID s)) =
     {task. \<exists>k. (k, task) \<in> set (tasks s) \<and> Task.AgentID task = agentID \<and>
                   Task.Status task = ''pending''} \<and>
   snd (GetPendingTasks agentID s) = s \<and>
   set (fst (GetPendingTasks agentID (snd (GetPendingTasks agentID s))))
     = set (fst (GetPendingTasks agentID s))"
proof -
  have returned: "set (fst (GetPendingTasks agentID s)) =
     {task. \<exists>k. (k, task) \<in> set (tasks s) \<and> Task.AgentID task = agentID \<and>
                   Task.Status task = ''pending''}"
    by (auto simp: GetPendingTasks_def image_iff)
  have unchanged: "snd (GetPendingTasks agentID s) = s"
    by (simp add: GetPendingTasks_def)
  show ?thesis
    using returned unchanged by simp
qed

text \<open>
  Claim C5, as stated, fails: \<^verbatim>\<open>SubmitTask\<close> does not look at the registry. With an
  empty registry, a task for the agent ghost is stored with the status pending.
\<close>

theorem SubmitTask_unknown_target_counterexample:
  "Get (registry (NewScheduler NewRegistry)) ''ghost'' = None \<and>
   map_of (tasks (SubmitTask (commandTask ''t1'' ''ghost'' []) (NewScheduler NewRegistry))) ''t1''
     = Some (commandTask ''t1'' ''ghost'' ''pending'')"
  by (simp add: Get_def SubmitTask_def NewScheduler_def NewRegistry_def commandTask_def Let_def)

text \<open>
  Claim C5, amended. \<^verbatim>\<open>SubmitTask\<close> stores every task under its id with the status
  pending, whether or not the target agent is in the registry: it rejects nothing, it
  leaves the registry as it was, and the stored task is among the pending tasks of its
  target agent.
\<close>

theorem SubmitTask_stores_any_target:
  "map_of (tasks (SubmitTask task s)) (Task.ID task) = Some (task\<lparr>Task.Status := ''pending''\<rparr>) \<and>
   registry (SubmitTask task s) = registry s \<and>
   task\<lparr>Task.Status := ''pending''\<rparr>
     \<in> set (fst (GetPendingTasks (Task.AgentID task) (SubmitTask task s)))"
proof -
  have look: "map_of (tasks (SubmitTask task s)) (Task.ID task) = Some (task\<lparr>Task.Status := ''pending''\<rparr>)"
    by (simp add: SubmitTask_def Let_def map_of_update_same)
  then have "(Task.ID task, task\<lparr>Task.Status := ''pending''\<rparr>) \<in> set (tasks (SubmitTask task s))"
    by (rule map_of_SomeD)
  then have "task\<lparr>Task.Status := ''pending''\<rparr>
     \<in> set (fst (GetPendingTasks (Task.AgentID task) (SubmitTask task s)))"
    by (force simp: GetPendingTasks_def)
  with look show ?thesis
    by (simp add: SubmitTask_def Let_def)
qed

text \<open>
  Claim C2, as stated, fails: \<^verbatim>\<open>MarkTaskDone\<close> does not look at the status of the
  task. A report for a task that is pending, not dispatched, is accepted and changes
  the stored status, and the new status is completed, neither succeeded nor failed.
\<close>

theorem MarkTaskDone_not_dispatched_counterexample:
  "map_option Task.Status
     (map_of (tasks (SubmitTask (commandTask ''t1'' ''i1'' []) (NewScheduler NewRegistry))) ''t1'')
     = Some ''pending'' \<and>
   map_option Task.Status
     (map_of (tasks (MarkTaskDone ''t1'' True ''ok'' []
                (SubmitTask (commandTask ''t1'' ''i1'' []) (NewScheduler NewRegistry)))) ''t1'')
     = Some ''completed'' \<and>
   ''pending'' \<noteq> ''dispatched'' \<and> ''completed'' \<noteq> ''succeeded'' \<and> ''completed'' \<noteq> ''failed''"
  by (simp add: MarkTaskDone_def SubmitTask_def NewScheduler_def commandTask_def Let_def)

text \<open>
  Claim C2, amended. A report for an id that the task map does not hold leaves the
  scheduler as it was. A report for a task that the map holds, whatever its status and
  whatever the report says, sets the status of that task to completed and changes
  nothing else in the task map: the other fields and the other tasks stay, and no
  result is stored. A further report for the same task leaves the task map as the first
  report left it.
\<close>

theorem MarkTaskDone_completes:
  "(map_of (tasks s) taskID = None \<longrightarrow> MarkTaskDone taskID success output errMsg s = s) \<and>
   (\<forall>task. map_of (tasks s) taskID = Some task \<longrightarrow>
      map_of (tasks (MarkTaskDone taskID success output errMsg s)) taskID
        = Some (task\<lparr>Task.Status := ''completed''\<rparr>)) \<and>
   (\<forall>k. k \<noteq> taskID \<longrightarrow>
      map_of (tasks (MarkTaskDone taskID success output errMsg s)) k = map_of (tasks s) k) \<and>
   map fst (tasks (MarkTaskDone taskID success output errMsg s)) = map fst (tasks s) \<and>
   tasks (MarkTaskDone taskID success' output' errMsg' (MarkTaskDone taskID success output errMsg s))
     = tasks (MarkTaskDone taskID success output errMsg s)"
  by (auto simp: MarkTaskDone_def map_of_update_same map_of_update_other keys_update_present
        split: option.splits)

theorem MarkTaskDone_completes_witness:
  "map_of (tasks (SubmitTask (commandTask ''t1'' ''i1'' []) (NewScheduler NewRegistry))) ''t1''
     = Some (commandTask ''t1'' ''i1'' ''pending'') \<and>
   map_of (tasks (MarkTaskDone ''t1'' False [] ''exit status 1''
              (SubmitTask (commandTask ''t1'' ''i1'' []) (NewScheduler NewRegistry)))) ''t1''
     = Some (commandTask ''t1'' ''i1'' ''completed'') \<and>
   map_of (tasks (SubmitTask (commandTask ''t1'' ''i1'' []) (NewScheduler NewRegistry))) ''t2''
     = None \<and>
   MarkTaskDone ''t2'' True [] [] (SubmitTask (commandTask ''t1'' ''i1'' []) (NewScheduler NewRegistry))
     = SubmitTask (commandTask ''t1'' ''i1'' []) (NewScheduler NewRegistry)"
proof -
  let ?s = "SubmitTask (commandTask ''t1'' ''i1'' []) (NewScheduler NewRegistry)"
  have stored: "map_of (tasks ?s) ''t1'' = Some (commandTask ''t1'' ''i1'' ''pending'')"
    and absent: "map_of (tasks ?s) ''t2'' = None"
    by (simp_all add: SubmitTask_def NewScheduler_def commandTask_def Let_def)
  have upd: "(commandTask ''t1'' ''i1'' ''pending'')\<lparr>Task.Status := ''completed''\<rparr>
      = commandTask ''t1'' ''i1'' ''completed''"
    by (simp add: commandTask_def)
  show ?thesis
    using stored absent upd
      MarkTaskDone_completes [of ?s "''t1''" False "[]" "''exit status 1''"]
      MarkTaskDone_completes [of ?s "''t2''" True "[]" "[]"]
    by simp
qed

text \<open>
  Claim C3, as stated, fails: after a task is submitted and reported done, its status
  is completed, which is none of the five statuses of the claim, and it was reached
  from pending in one step.
\<close>

theorem status_completed_counterexample:
  "map_option Task.Status
     (map_of (tasks (calls_scheduler
                [CallSubmitTask (commandTask ''t1'' ''i1'' []),
                 CallMarkTaskDone ''t1'' True [] []]
                (NewScheduler NewRegistry))) ''t1'')
     = Some ''completed'' \<and>
   ''completed'' \<notin> set specStatuses"
  by (simp add: MarkTaskDone_def SubmitTask_def NewScheduler_def commandTask_def Let_def
        specStatuses_def)

text \<open>
  Claim C3, amended. After any run of scheduler calls on a new scheduler, every stored
  task has the status pending or completed. A call that does not store a task under
  the id of a stored task keeps that task in the map and moves its status forward or
  not at all on the path from pending to completed. \<^verbatim>\<open>SubmitTask\<close> stores the task
  as pending under its id, \<^verbatim>\<open>ScheduleHook\<close> and \<^verbatim>\<open>ScheduleCommand\<close> store a
  pending task under the new id, and all three leave the other tasks as they were;
  \<^verbatim>\<open>GetPendingTasks\<close> and \<^verbatim>\<open>GetTasksByStatus\<close> leave the scheduler as it was;
  \<^verbatim>\<open>MarkTaskDone\<close> sets the status of the task with the given id, if the map holds
  it, to completed, whatever it was, and leaves the other tasks as they were.
\<close>

theorem status_pending_then_completed:
  "(\<forall>k task. map_of (tasks (calls_scheduler cs (NewScheduler reg))) k = Some task \<longrightarrow>
      Task.Status task = ''pending'' \<or> Task.Status task = ''completed'') \<and>
   (\<forall>k task i. map_of (tasks s) k = Some task \<and> submitted c \<noteq> Some k \<and>
        stage (Task.Status task) = Some i \<longrightarrow>
      (\<exists>task' j. map_of (tasks (call_scheduler c s)) k = Some task' \<and>
         stage (Task.Status task') = Some j \<and> i \<le> j)) \<and>
   (\<forall>task k. map_of (tasks (SubmitTask task s)) k =
      (if k = Task.ID task then Some (task\<lparr>Task.Status := ''pending''\<rparr>)
       else map_of (tasks s) k)) \<and>
   (\<forall>newID agentID plugin params k.
      map_option Task.Status (map_of (tasks (ScheduleHook newID agentID plugin params s)) k) =
        (if k = newID then Some ''pending'' else map_option Task.Status (map_of (tasks s) k))) \<and>
   (\<forall>newID agentID command timeout k.
      map_option Task.Status
          (map_of (tasks (ScheduleCommand newID agentID command timeout s)) k) =
        (if k = newID then Some ''pending'' else map_option Task.Status (map_of (tasks s) k))) \<and>
   (\<forall>agentID. snd (GetPendingTasks agentID s) = s) \<and>
   (\<forall>status. snd (GetTasksByStatus status s) = s) \<and>
   (\<forall>taskID success output errMsg k.
      map_of (tasks (MarkTaskDone taskID success output errMsg s)) k =
        (if k = taskID
         then map_option (\<lambda>task. task\<lparr>Task.Status := ''completed''\<rparr>) (map_of (tasks s) k)
         else map_of (tasks s) k))"
proof -
  have reach: "Task.Status task = ''pending'' \<or> Task.Status task = ''completed''"
    if "map_of (tasks (calls_scheduler cs (NewScheduler reg))) k = Some task" for k task
    by (rule calls_statuses [OF _ that]) (simp add: NewScheduler_def)
  have step: "\<exists>task' j. map_of (tasks (call_scheduler c s)) k = Some task' \<and>
         stage (Task.Status task') = Some j \<and> i \<le> j"
    if "map_of (tasks s) k = Some task" "submitted c \<noteq> Some k" "stage (Task.Status task) = Some i"
    for k task i
    using call_keeps [OF that(1,2)] that(3) by (auto simp: stage_cases)
  have submit: "map_of (tasks (SubmitTask task s)) k =
      (if k = Task.ID task then Some (task\<lparr>Task.Status := ''pending''\<rparr>)
       else map_of (tasks s) k)" for task k
    by (rule SubmitTask_lookup)
  have hook: "map_option Task.Status
        (map_of (tasks (ScheduleHook newID agentID plugin params s)) k) =
        (if k = newID then Some ''pending'' else map_option Task.Status (map_of (tasks s) k))"
    for newID agentID plugin params k
    by (simp add: ScheduleHook_def SubmitTask_lookup)
  have cmd: "map_option Task.Status
        (map_of (tasks (ScheduleCommand newID agentID command timeout s)) k) =
        (if k = newID then Some ''pending'' else map_option Task.Status (map_of (tasks s) k))"
    for newID agentID command timeout k
    by (simp add: ScheduleCommand_def SubmitTask_lookup)
  have pending: "snd (GetPendingTasks agentID s) = s" for agentID
    by (simp add: GetPendingTasks_def)
  have by_status: "snd (GetTasksByStatus status s) = s" for status
    by (simp add: GetTasksByStatus_def)
  have marked: "map_of (tasks (MarkTaskDone taskID success out errMsg s)) k =
        (if k = taskID
         then map_option (\<lambda>task. task\<lparr>Task.Status := ''completed''\<rparr>) (map_of (tasks s) k)
         else map_of (tasks s) k)" for taskID success out errMsg k
    by (rule MarkTaskDone_lookup)
  show ?thesis
    using reach step submit hook cmd pending by_status marked by blast
qed

theorem status_pending_then_completed_witness:
  "map_of (tasks (calls_scheduler
             [CallSubmitTask (commandTask ''t1'' ''i1'' []), CallMarkTaskDone ''t1'' True [] []]
             (NewScheduler NewRegistry))) ''t1''
     = Some (commandTask ''t1'' ''i1'' ''completed'') \<and>
   (Task.Status (commandTask ''t1'' ''i1'' ''completed'') = ''pending'' \<or>
    Task.Status (commandTask ''t1'' ''i1'' ''completed'') = ''completed'') \<and>
   map_of (tasks (SubmitTask (commandTask ''t1'' ''i1'' []) (NewScheduler NewRegistry))) ''t1''
     = Some (commandTask ''t1'' ''i1'' ''pending'') \<and>
   submitted (CallMarkTaskDone ''t1'' True [] []) \<noteq> Some ''t1'' \<and>
   stage (Task.Status (commandTask ''t1'' ''i1'' ''pending'')) = Some 0 \<and>
   (\<exists>task' j.
      map_of (tasks (call_scheduler (CallMarkTaskDone ''t1'' True [] [])
                (SubmitTask (commandTask ''t1'' ''i1'' []) (NewScheduler NewRegistry)))) ''t1''
        = Some task' \<and>
      stage (Task.Status task') = Some j \<and> 0 \<le> j) \<and>
   stage (Task.Status (commandTask ''t1'' ''i1'' ''completed'')) = Some 1 \<and>
   submitted (CallGetTasksByStatus ''completed'') \<noteq> Some ''t1'' \<and>
   (\<exists>task' j.
      map_of (tasks (call_scheduler (CallGetTasksByStatus ''completed'')
                (calls_scheduler
                   [CallSubmitTask (commandTask ''t1'' ''i1'' []),
                    CallMarkTaskDone ''t1'' True [] []]
                   (NewScheduler NewRegistry)))) ''t1''
        = Some task' \<and>
      stage (Task.Status task') = Some j \<and> 1 \<le> j) \<and>
   (\<exists>task' j.
      map_of (tasks (call_scheduler (CallMarkTaskDone ''t1'' False [] ''late'')
                (calls_scheduler
                   [CallSubmitTask (commandTask ''t1'' ''i1'' []),
                    CallMarkTaskDone ''t1'' True [] []]
                   (NewScheduler NewRegistry)))) ''t1''
        = Some task' \<and>
      stage (Task.Status task') = Some j \<and> 1 \<le> j)"
proof -
  let ?s = "SubmitTask (commandTask ''t1'' ''i1'' []) (NewScheduler NewRegistry)"
  let ?cs = "[CallSubmitTask (commandTask ''t1'' ''i1'' []), CallMarkTaskDone ''t1'' True [] []]"
  let ?s2 = "calls_scheduler ?cs (NewScheduler NewRegistry)"
  have run: "map_of (tasks ?s2) ''t1'' = Some (commandTask ''t1'' ''i1'' ''completed'')"
    by (simp add: MarkTaskDone_def SubmitTask_def NewScheduler_def commandTask_def Let_def)
  have stored: "map_of (tasks ?s) ''t1'' = Some (commandTask ''t1'' ''i1'' ''pending'')"
    by (simp add: SubmitTask_def NewScheduler_def commandTask_def Let_def)
  have st0: "stage (Task.Status (commandTask ''t1'' ''i1'' ''pending'')) = Some 0"
    and st1: "stage (Task.Status (commandTask ''t1'' ''i1'' ''completed'')) = Some 1"
    by (simp_all add: stage_def commandTask_def)
  have sub: "submitted (CallMarkTaskDone ''t1'' True [] []) \<noteq> Some ''t1''"
    "submitted (CallMarkTaskDone ''t1'' False [] ''late'') \<noteq> Some ''t1''"
    "submitted (CallGetTasksByStatus ''completed'') \<noteq> Some ''t1''"
    by simp_all
  have kind: "Task.Status (commandTask ''t1'' ''i1'' ''completed'') = ''pending'' \<or>
    Task.Status (commandTask ''t1'' ''i1'' ''completed'') = ''completed''"
    using run status_pending_then_completed
        [of ?cs NewRegistry ?s "CallMarkTaskDone ''t1'' True [] []", THEN conjunct1]
    by blast
  have step0: "\<exists>task' j.
      map_of (tasks (call_scheduler (CallMarkTaskDone ''t1'' True [] []) ?s)) ''t1'' = Some task' \<and>
      stage (Task.Status task') = Some j \<and> 0 \<le> j"
    using stored st0 sub
      status_pending_then_completed
        [of ?cs NewRegistry ?s "CallMarkTaskDone ''t1'' True [] []",
         THEN conjunct2, THEN conjunct1]
    by blast
  have step1: "\<exists>task' j.
      map_of (tasks (call_scheduler (CallGetTasksByStatus ''completed'') ?s2)) ''t1'' = Some task' \<and>
      stage (Task.Status task') = Some j \<and> 1 \<le> j"
    using run st1 sub
      status_pending_then_completed
        [of ?cs NewRegistry ?s2 "CallGetTasksByStatus ''completed''",
         THEN conjunct2, THEN conjunct1]
    by blast
  have step2: "\<exists>task' j.
      map_of (tasks (call_scheduler (CallMarkTaskDone ''t1'' False [] ''late'') ?s2)) ''t1''
        = Some task' \<and>
      stage (Task.Status task') = Some j \<and> 1 \<le> j"
    using run st1 sub
      status_pending_then_completed
        [of ?cs NewRegistry ?s2 "CallMarkTaskDone ''t1'' False [] ''late''",
         THEN conjunct2, THEN conjunct1]
    by blast
  show ?thesis
    using run stored st0 st1 sub kind step0 step1 step2 by blast
qed

section \<open>Last-seen times\<close>

lemma case_JString_LastSeen:
  "(\<And>h. LastSeen (f h) = LastSeen a) \<Longrightarrow>
   LastSeen (case x of Some (JString h) \<Rightarrow> f h | _ \<Rightarrow> a) = LastSeen a"
  by (cases x; simp) (simp split: json.splits)

lemma case_JNumber_LastSeen:
  "(\<And>h. LastSeen (f h) = LastSeen a) \<Longrightarrow>
   LastSeen (case x of Some (JNumber h) \<Rightarrow> f h | _ \<Rightarrow> a) = LastSeen a"
  by (cases x; simp) (simp split: json.splits)

lemma mergeSystemInfo_LastSeen: "LastSeen (mergeSystemInfo si a) = LastSeen a"
proof (cases si)
  case None
  then show ?thesis by (simp add: mergeSystemInfo_def)
next
  case (Some info)
  define a1 where "a1 = (case map_of info ''hostname'' of
                       Some (JString hostname) \<Rightarrow> a\<lparr>Hostname := hostname\<rparr>
                     | _ \<Rightarrow> a)"
  define a2 where "a2 = (case map_of info ''cpu_type'' of
                       Some (JString cpuType) \<Rightarrow> a1\<lparr>CPUType := cpuType\<rparr>
                     | _ \<Rightarrow> a1)"
  define a3 where "a3 = (case map_of info ''cpu_logic'' of
                       Some (JNumber cpuLogic) \<Rightarrow> a2\<lparr>CPULogic := toInt cpuLogic\<rparr>
                     | _ \<Rightarrow> a2)"
  define a4 where "a4 = (case map_of info ''memory'' of
                       Some (JString memory) \<Rightarrow> a3\<lparr>Memory := memory\<rparr>
                     | _ \<Rightarrow> a3)"
  have "mergeSystemInfo si a = a4"
    unfolding Some mergeSystemInfo_def Let_def a4_def a3_def a2_def a1_def by simp
  moreover have "LastSeen a1 = LastSeen a"
    unfolding a1_def by (rule case_JString_LastSeen) simp
  moreover have "LastSeen a2 = LastSeen a1"
    unfolding a2_def by (rule case_JString_LastSeen) simp
  moreover have "LastSeen a3 = LastSeen a2"
    unfolding a3_def by (rule case_JNumber_LastSeen) simp
  moreover have "LastSeen a4 = LastSeen a3"
    unfolding a4_def by (rule case_JString_LastSeen) simp
  ultimately show ?thesis by simp
qed

lemma agentHeartbeat_lookup:
  assumes "Get r aid = Some a"
  shows "\<exists>r' a'. snd (agentHeartbeat now agentID (Inr hb) (Some r)) = Some r' \<and>
           Get r' aid = Some a' \<and> (LastSeen a' = LastSeen a \<or> LastSeen a' = now)"
proof (cases "lookupAgent agentID hb r")
  case None
  then show ?thesis using assms by (simp add: agentHeartbeat_def)
next
  case (Some found)
  obtain key agentID' agent where found: "found = (key, agentID', agent)"
    by (cases found) auto
  define a3 where "a3 = mergeSystemInfo (heartbeatData.SystemInfo hb)
     (if heartbeatData.Status hb \<noteq> [] then agent\<lparr>LastSeen := now, Status := heartbeatData.Status hb\<rparr>
      else agent\<lparr>LastSeen := now, Status := ''online''\<rparr>)"
  have seen: "LastSeen a3 = now"
    by (simp add: a3_def mergeSystemInfo_LastSeen)
  define r1 where "r1 = r\<lparr>agents := AList.update key a3 (agents r)\<rparr>"
  have res: "snd (agentHeartbeat now agentID (Inr hb) (Some r)) = Some (Update agentID' a3 r1)"
    using Some found by (simp add: agentHeartbeat_def Let_def a3_def r1_def)
  have g1: "Get r1 aid = (if aid = key then Some a3 else Some a)"
    using assms by (simp add: r1_def Get_def update_conv')
  show ?thesis
    unfolding res using g1 seen by (auto simp: Update_lookup)
qed

lemma step_LastSeen:
  assumes "Get r aid = Some a"
  shows "\<exists>a'. Get (apply_operation op r) aid = Some a' \<and>
           (LastSeen a' = LastSeen a \<or> stamp op = Some (LastSeen a'))"
proof (cases op)
  case (OpRegister agent)
  then show ?thesis using assms by (simp add: Register_lookup)
next
  case (OpUpdate k agent)
  then show ?thesis using assms by (simp add: Update_lookup)
next
  case (OpRegisterAgent env req authorization tokenQuery)
  then show ?thesis using assms
    by (simp add: registerAgent_registry Register_lookup newAgentInfo_fields)
next
  case (OpAgentHeartbeat now agentID hb)
  then show ?thesis using agentHeartbeat_lookup [OF assms, of now agentID hb] by auto
next
  case (OpRegisterAgentHandler now1 now2 agent token)
  then show ?thesis using assms
    by (simp add: RegisterAgent_registry Register_lookup)
next
  case (OpHeartbeatHandler now agent)
  then show ?thesis using assms by (simp add: Heartbeat_def Let_def Update_lookup)
next
  case (OpCleanupRound now)
  then show ?thesis using assms by (simp add: cleanupRound_lookup)
qed

lemma sorted_stamps_Cons:
  assumes "sorted (t # stamps (op # ops))"
  shows "sorted (t # stamps ops)"
    and "stamp op = Some u \<Longrightarrow> t \<le> u \<and> sorted (u # stamps ops)"
  using assms by (auto split: option.splits)

lemma run_LastSeen:
  "Get r aid = Some a \<Longrightarrow> sorted (LastSeen a # stamps ops) \<Longrightarrow>
   \<exists>a'. Get (apply_operations ops r) aid = Some a' \<and> LastSeen a \<le> LastSeen a' \<and>
        (LastSeen a' = LastSeen a \<or> LastSeen a' \<in> set (stamps ops))"
proof (induction ops arbitrary: r a)
  case Nil
  then show ?case by simp
next
  case (Cons op ops)
  from step_LastSeen [OF Cons.prems(1), of op] obtain a1 where
    g1: "Get (apply_operation op r) aid = Some a1"
    and s1: "LastSeen a1 = LastSeen a \<or> stamp op = Some (LastSeen a1)"
    by blast
  have le: "LastSeen a \<le> LastSeen a1" and srt: "sorted (LastSeen a1 # stamps ops)"
    and mem: "LastSeen a1 = LastSeen a \<or> LastSeen a1 \<in> set (stamps (op # ops))"
    using s1 sorted_stamps_Cons [OF Cons.prems(2)] by auto
  from Cons.IH [OF g1 srt] obtain a' where
    g': "Get (apply_operations ops (apply_operation op r)) aid = Some a'"
    and le': "LastSeen a1 \<le> LastSeen a'"
    and mem': "LastSeen a' = LastSeen a1 \<or> LastSeen a' \<in> set (stamps ops)"
    by blast
  have "LastSeen a' = LastSeen a \<or> LastSeen a' \<in> set (stamps (op # ops))"
    using mem mem' by (auto split: option.splits)
  with g' le le' show ?case by auto
qed

lemma stamps_append: "stamps (xs @ ys) = stamps xs @ stamps ys"
  by (induction xs) (auto split: option.splits)

lemma apply_operations_append:
  "apply_operations (xs @ ys) r = apply_operations ys (apply_operations xs r)"
  by (induction xs arbitrary: r) auto

text \<open>
  Claim C4, as stated, fails: \<^verbatim>\<open>Update\<close> stores the \<open>LastSeen\<close> of the struct it is
  given and compares it with nothing. Two updates of the agent h1 that carry the times
  10 and 5, applied in this order, leave the stored time at 5 after it was 10; so do
  two heartbeats through \<^verbatim>\<open>Heartbeat\<close> whose handlers read the clock at 10 and at 5
  and reach the registry in this order.
\<close>

theorem LastSeen_regresses_counterexample:
  "map_option LastSeen
     (Get (apply_operations [OpUpdate ''h1'' (agentOf ''h1'' ''online'' 10)]
             (snd (Register (agentOf ''h1'' ''online'' 0) NewRegistry))) ''h1'') = Some 10 \<and>
   map_option LastSeen
     (Get (apply_operations
             [OpUpdate ''h1'' (agentOf ''h1'' ''online'' 10),
              OpUpdate ''h1'' (agentOf ''h1'' ''online'' 5)]
             (snd (Register (agentOf ''h1'' ''online'' 0) NewRegistry))) ''h1'') = Some 5 \<and>
   map_option LastSeen
     (Get (apply_operations [OpHeartbeatHandler 10 (agentOf ''h1'' [] 0)]
             (snd (Register (agentOf ''h1'' ''online'' 0) NewRegistry))) ''h1'') = Some 10 \<and>
   map_option LastSeen
     (Get (apply_operations
             [OpHeartbeatHandler 10 (agentOf ''h1'' [] 0),
              OpHeartbeatHandler 5 (agentOf ''h1'' [] 0)]
             (snd (Register (agentOf ''h1'' ''online'' 0) NewRegistry))) ''h1'') = Some 5"
proof -
  have host: "Hostname (agentOf ''h1'' st t) = ''h1''" and seen: "LastSeen (agentOf h st t) = t"
    for h st t
    by (simp_all add: agentOf_def)
  show ?thesis
    by (simp add: Heartbeat_def Let_def Update_lookup Register_lookup host seen)
qed

text \<open>
  Claim C4, amended. For an agent that the registry holds, every registration,
  heartbeat, update and sweep keeps the agent in the registry and either leaves its
  \<open>LastSeen\<close> as it was or sets it to the time that the operation carries. Hence, over
  a sequence of such operations whose times, in the order in which the registry applies
  them, do not decrease, starting at or after the stored time, the stored \<open>LastSeen\<close>
  does not decrease: it is no smaller after a longer part of the sequence than after a
  shorter one.
\<close>

theorem LastSeen_follows_stamps:
  "(\<forall>a. Get r aid = Some a \<longrightarrow>
      (\<exists>a'. Get (apply_operation op r) aid = Some a' \<and>
         (LastSeen a' = LastSeen a \<or> stamp op = Some (LastSeen a')))) \<and>
   (\<forall>a. Get r aid = Some a \<and> sorted (LastSeen a # stamps (ops1 @ ops2)) \<longrightarrow>
      (\<exists>a1 a2. Get (apply_operations ops1 r) aid = Some a1 \<and>
         Get (apply_operations (ops1 @ ops2) r) aid = Some a2 \<and>
         LastSeen a \<le> LastSeen a1 \<and> LastSeen a1 \<le> LastSeen a2))"
proof -
  have run: "\<exists>a1 a2. Get (apply_operations ops1 r) aid = Some a1 \<and>
         Get (apply_operations (ops1 @ ops2) r) aid = Some a2 \<and>
         LastSeen a \<le> LastSeen a1 \<and> LastSeen a1 \<le> LastSeen a2"
    if g: "Get r aid = Some a" and srt: "sorted (LastSeen a # stamps (ops1 @ ops2))" for a
  proof -
    from srt have srt1: "sorted (LastSeen a # stamps ops1)"
      and srt2: "sorted (stamps ops2)"
      and below: "\<forall>t \<in> set (stamps ops2). LastSeen a \<le> t"
      and cross: "\<forall>u \<in> set (stamps ops1). \<forall>t \<in> set (stamps ops2). u \<le> t"
      by (auto simp: stamps_append sorted_append)
    from run_LastSeen [OF g srt1] obtain a1 where
      g1: "Get (apply_operations ops1 r) aid = Some a1" and le1: "LastSeen a \<le> LastSeen a1"
      and mem1: "LastSeen a1 = LastSeen a \<or> LastSeen a1 \<in> set (stamps ops1)"
      by blast
    have "sorted (LastSeen a1 # stamps ops2)"
      using mem1 srt2 below cross by auto
    from run_LastSeen [OF g1 this] obtain a2 where
      "Get (apply_operations ops2 (apply_operations ops1 r)) aid = Some a2"
      "LastSeen a1 \<le> LastSeen a2"
      by blast
    with g1 le1 show ?thesis
      by (auto simp: apply_operations_append)
  qed
  show ?thesis
    using step_LastSeen [of r aid _ op] run by blast
qed

theorem LastSeen_follows_stamps_witness:
  "Get (snd (Register (agentOf ''h1'' ''online'' 0) NewRegistry)) ''h1''
     = Some ((agentOf ''h1'' ''online'' 0)\<lparr>ID := ''h1''\<rparr>) \<and>
   sorted (LastSeen ((agentOf ''h1'' ''online'' 0)\<lparr>ID := ''h1''\<rparr>) #
           stamps ([OpAgentHeartbeat 10 ''h1''
                      \<lparr>heartbeatData.Status = [], SystemInfo = None, Tasks = []\<rparr>] @
                   [OpCleanupRound 15,
                    OpHeartbeatHandler 20 (agentOf ''h1'' [] 0)])) \<and>
   (\<exists>a1 a2.
      Get (apply_operations
             [OpAgentHeartbeat 10 ''h1''
                \<lparr>heartbeatData.Status = [], SystemInfo = None, Tasks = []\<rparr>]
             (snd (Register (agentOf ''h1'' ''online'' 0) NewRegistry))) ''h1'' = Some a1 \<and>
      Get (apply_operations
             ([OpAgentHeartbeat 10 ''h1''
                 \<lparr>heartbeatData.Status = [], SystemInfo = None, Tasks = []\<rparr>] @
              [OpCleanupRound 15, OpHeartbeatHandler 20 (agentOf ''h1'' [] 0)])
             (snd (Register (agentOf ''h1'' ''online'' 0) NewRegistry))) ''h1'' = Some a2 \<and>
      LastSeen ((agentOf ''h1'' ''online'' 0)\<lparr>ID := ''h1''\<rparr>) \<le> LastSeen a1 \<and>
      LastSeen a1 \<le> LastSeen a2)"
proof -
  let ?r = "snd (Register (agentOf ''h1'' ''online'' 0) NewRegistry)"
  let ?a = "(agentOf ''h1'' ''online'' 0)\<lparr>ID := ''h1''\<rparr>"
  let ?ops1 = "[OpAgentHeartbeat 10 ''h1''
                  \<lparr>heartbeatData.Status = [], SystemInfo = None, Tasks = []\<rparr>]"
  let ?ops2 = "[OpCleanupRound 15, OpHeartbeatHandler 20 (agentOf ''h1'' [] 0)]"
  have stored: "Get ?r ''h1'' = Some ?a"
    by (simp add: Register_lookup agentOf_def)
  have srt: "sorted (LastSeen ?a # stamps (?ops1 @ ?ops2))"
    by (simp add: agentOf_def)
  show ?thesis
    using stored srt LastSeen_follows_stamps [of ?r "''h1''" "OpCleanupRound 15" ?ops1 ?ops2]
    by blast
qed

section \<open>The task executor\<close>

lemma finish_Error:
  "Error (finish what env t output err) =
     (case err of
        None \<Rightarrow> []
      | Some er \<Rightarrow>
          if er = DeadlineExceeded then what @ '' timeout after '' @ fmtDuration env t
          else Error_of er)"
  by (cases err) (auto simp: finish_def zeroResult_def Let_def)

lemma finish_Success: "Success (finish what env t output err) \<longleftrightarrow> err = None"
  by (cases err) (auto simp: finish_def zeroResult_def Let_def)

lemma ExecuteCommand_result:
  "Success (fst (fst (ExecuteCommand e env command timeout w)))
     = (snd (fst (ExecuteCommand e env command timeout w)) = None)"
  "Error (fst (fst (ExecuteCommand e env command timeout w))) =
     (case snd (fst (ExecuteCommand e env command timeout w)) of
        None \<Rightarrow> []
      | Some er \<Rightarrow>
          if er = DeadlineExceeded
          then ''command timeout after '' @ fmtDuration env (deadline e timeout)
          else Error_of er)"
  by (auto simp: ExecuteCommand_def Let_def case_prod_unfold finish_Success finish_Error
        split: option.splits)

lemma tryNames_fresh: "tryNames n env i fs = Some name \<Longrightarrow> fs name = None"
  by (induction n arbitrary: i) (auto simp: Let_def split: if_splits)

lemma CreateTemp_Inr:
  assumes "CreateTemp env fs = Inr (name, fs1)"
  shows "fs name = None" and "fs1 = fs(name \<mapsto> \<lparr>content = [], mode = 384\<rparr>)"
  using assms
  by (auto simp: CreateTemp_def tryNames_fresh split: option.splits)

lemma CreateTemp_Inl:
  "CreateTemp env (files w) = Inl err \<Longrightarrow>
   ExecuteScript e env script timeout w = ((zeroResult\<lparr>Error := Error_of err\<rparr>, Some err), w)"
  by (simp add: ExecuteScript_def)

lemma ExecuteScript_cases:
  assumes c: "CreateTemp env (files w) = Inr (name, fs1)"
  shows "files (snd (ExecuteScript e env script timeout w)) name = None"
    and "started (snd (ExecuteScript e env script timeout w)) = started w \<or>
         (\<exists>fs3. started (snd (ExecuteScript e env script timeout w))
                  = started w @ [([''/bin/bash'', name], fs3)] \<and>
                fs3 name = Some \<lparr>content = script, mode = 493\<rparr>)"
    and "writeErr env = None \<and> chmodErr env = None \<longrightarrow>
         (\<exists>fs3. started (snd (ExecuteScript e env script timeout w))
                  = started w @ [([''/bin/bash'', name], fs3)] \<and>
                fs3 name = Some \<lparr>content = script, mode = 493\<rparr> \<and>
                fst (fst (ExecuteScript e env script timeout w))
                  = finish ''script'' env (deadline e timeout)
                      (fst (fst (CombinedOutput env [''/bin/bash'', name] (deadline e timeout) fs3)))
                      (snd (fst (CombinedOutput env [''/bin/bash'', name] (deadline e timeout) fs3))))"
proof -
  have fs1: "fs1 = (files w)(name \<mapsto> \<lparr>content = [], mode = 384\<rparr>)"
    using CreateTemp_Inr(2) [OF c] .
  show "files (snd (ExecuteScript e env script timeout w)) name = None"
    using c by (simp add: ExecuteScript_def Let_def Remove_def case_prod_unfold)
  show "started (snd (ExecuteScript e env script timeout w)) = started w \<or>
         (\<exists>fs3. started (snd (ExecuteScript e env script timeout w))
                  = started w @ [([''/bin/bash'', name], fs3)] \<and>
                fs3 name = Some \<lparr>content = script, mode = 493\<rparr>)"
    using c fs1
    by (auto simp: ExecuteScript_def Let_def WriteString_def Chmod_def case_prod_unfold
          split: sum.splits option.splits)
  show "writeErr env = None \<and> chmodErr env = None \<longrightarrow>
         (\<exists>fs3. started (snd (ExecuteScript e env script timeout w))
                  = started w @ [([''/bin/bash'', name], fs3)] \<and>
                fs3 name = Some \<lparr>content = script, mode = 493\<rparr> \<and>
                fst (fst (ExecuteScript e env script timeout w))
                  = finish ''script'' env (deadline e timeout)
                      (fst (fst (CombinedOutput env [''/bin/bash'', name] (deadline e timeout) fs3)))
                      (snd (fst (CombinedOutput env [''/bin/bash'', name] (deadline e timeout) fs3))))"
    using c fs1
    by (auto simp: ExecuteScript_def Let_def WriteString_def Chmod_def case_prod_unfold)
qed

text \<open>
  Claim C6 asks that a command that exceeds its timeout yields a result with success
  false and an error text that tells the timeout from an ordinary failure. The executor
  writes the timeout text only when the error of \<^verbatim>\<open>CombinedOutput\<close> is the sentinel
  \<^verbatim>\<open>context.DeadlineExceeded\<close>. For the command sleep 10 with a timeout of one
  second, on a system that kills the process at the deadline and reports the exit error
  of the killed process, the deadline is one second, the result has success false and
  the error text signal: killed, and this is not the timeout text.
\<close>

theorem ExecuteCommand_killed_at_deadline:
  "deadline (NewTaskExecutor (30 * Second)) 1 = Second \<and>
   fst (ExecuteCommand (NewTaskExecutor (30 * Second)) killingSys ''sleep 10'' 1 emptyWorld)
     = (\<lparr>TaskID = [], Success = False, Output = [], Error = ''signal: killed''\<rparr>,
        Some (ExitError ''signal: killed'')) \<and>
   ''signal: killed'' \<noteq> ''command timeout after '' @ fmtDuration killingSys Second"
  by (simp add: ExecuteCommand_def deadline_def int64_def Second_def NewTaskExecutor_def
        killingSys_def quietSys_def emptyWorld_def finish_def zeroResult_def Let_def)

text \<open>
  Claim C9. When \<^verbatim>\<open>os.CreateTemp\<close> fails, \<^verbatim>\<open>ExecuteScript\<close> returns the error and
  leaves the files as they were. When it succeeds, the name it returns was not the
  name of a file before (the file is new and its name is not shared), and after the
  call no file has that name, at whichever return the call ends and whatever the script
  did or however it ended; the call starts at most one process, \<^verbatim>\<open>/bin/bash\<close> with
  that name, and when that process starts the file holds the script and has the mode
  0755; it does start it when writing and changing the mode succeed, and the result
  is then made from the output and the error of that process.
\<close>

theorem ExecuteScript_removes_script_file:
  "(\<forall>err. CreateTemp env (files w) = Inl err \<longrightarrow>
      ExecuteScript e env script timeout w = ((zeroResult\<lparr>Error := Error_of err\<rparr>, Some err), w)) \<and>
   (\<forall>name fs1. CreateTemp env (files w) = Inr (name, fs1) \<longrightarrow>
      files w name = None \<and>
      fs1 = (files w)(name \<mapsto> \<lparr>content = [], mode = 384\<rparr>) \<and>
      files (snd (ExecuteScript e env script timeout w)) name = None \<and>
      (started (snd (ExecuteScript e env script timeout w)) = started w \<or>
       (\<exists>fs3. started (snd (ExecuteScript e env script timeout w))
                = started w @ [([''/bin/bash'', name], fs3)] \<and>
              fs3 name = Some \<lparr>content = script, mode = 493\<rparr>)) \<and>
      (writeErr env = None \<and> chmodErr env = None \<longrightarrow>
         (\<exists>fs3. started (snd (ExecuteScript e env script timeout w))
                  = started w @ [([''/bin/bash'', name], fs3)] \<and>
                fs3 name = Some \<lparr>content = script, mode = 493\<rparr> \<and>
                fst (fst (ExecuteScript e env script timeout w))
                  = finish ''script'' env (deadline e timeout)
                      (fst (fst (CombinedOutput env [''/bin/bash'', name] (deadline e timeout) fs3)))
                      (snd (fst (CombinedOutput env [''/bin/bash'', name] (deadline e timeout) fs3))))))"
  using CreateTemp_Inl [of env w _ e script timeout]
    CreateTemp_Inr [of env "files w"] ExecuteScript_cases [of env w _ _ e script timeout]
  by blast

theorem ExecuteScript_removes_script_file_witness:
  "CreateTemp quietSys (files emptyWorld)
     = Inr (''/tmp/nerve-script-0.sh'',
            (files emptyWorld)(''/tmp/nerve-script-0.sh'' \<mapsto> \<lparr>content = [], mode = 384\<rparr>)) \<and>
   writeErr quietSys = None \<and> chmodErr quietSys = None \<and>
   files (snd (ExecuteScript (NewTaskExecutor (30 * Second)) quietSys ''echo ok'' 0 emptyWorld))
      ''/tmp/nerve-script-0.sh'' = None \<and>
   (\<exists>fs3. started (snd (ExecuteScript (NewTaskExecutor (30 * Second)) quietSys ''echo ok'' 0
                           emptyWorld))
            = started emptyWorld @ [([''/bin/bash'', ''/tmp/nerve-script-0.sh''], fs3)] \<and>
          fs3 ''/tmp/nerve-script-0.sh'' = Some \<lparr>content = ''echo ok'', mode = 493\<rparr>) \<and>
   files (snd (ExecuteScript (NewTaskExecutor (30 * Second)) killingSys ''sleep 10'' 1 emptyWorld))
      ''/tmp/nerve-script-0.sh'' = None \<and>
   files (snd (ExecuteScript (NewTaskExecutor (30 * Second)) fullDiskSys ''echo ok'' 0 emptyWorld))
      ''/tmp/nerve-script-0.sh'' = None"
proof -
  let ?name = "''/tmp/nerve-script-0.sh''"
  let ?fs1 = "(files emptyWorld)(?name \<mapsto> \<lparr>content = [], mode = 384\<rparr>)"
  let ?e = "NewTaskExecutor (30 * Second)"
  have first: "tryNames 10000 env 0 (files emptyWorld) = Some ?name"
    if "TempDir env = ''/tmp''" "nextRandom env 0 = ''0''" for env
    using that by (simp add: numeral_eq_Suc joinPath_def emptyWorld_def Let_def)
  have quiet: "CreateTemp quietSys (files emptyWorld) = Inr (?name, ?fs1)"
    using first [of quietSys] by (simp add: CreateTemp_def quietSys_def)
  have killing: "CreateTemp killingSys (files emptyWorld) = Inr (?name, ?fs1)"
    using first [of killingSys] by (simp add: CreateTemp_def killingSys_def quietSys_def)
  have full: "CreateTemp fullDiskSys (files emptyWorld) = Inr (?name, ?fs1)"
    using first [of fullDiskSys] by (simp add: CreateTemp_def fullDiskSys_def quietSys_def)
  have ok: "writeErr quietSys = None" "chmodErr quietSys = None"
    by (simp_all add: quietSys_def)
  show ?thesis
    using quiet killing full ok
      ExecuteScript_removes_script_file [of quietSys emptyWorld ?e "''echo ok''" 0]
      ExecuteScript_removes_script_file [of killingSys emptyWorld ?e "''sleep 10''" 1]
      ExecuteScript_removes_script_file [of fullDiskSys emptyWorld ?e "''echo ok''" 0]
    by blast
qed

end
